theory Spec2Isabelle
  imports Complex_Main "HOL-Library.Monad_Syntax" "HOL-Library.Signed_Division"
begin

section \<open>DEW water model stack: data model\<close>

text \<open>
  The C++ sources compute in IEEE doubles. This development models a \<^verbatim>\<open>double\<close> (and the
  autodiff \<^verbatim>\<open>real\<close>) as a mathematical real number: branch conditions, guards and algebraic
  identities are those of the source, rounding is not modelled. The one exception is the
  product \<^verbatim>\<open>P_Pa * 1.0e-5\<close> of the water Gibbs model, which the source compares for
  equality with \<^verbatim>\<open>1000.0\<close>: there the binary64 rounding of the product decides the branch
  and is modelled. \<^verbatim>\<open>std::pow(x, n.0)\<close> with
  an integral exponent is \<open>x ^ n\<close>; \<^verbatim>\<open>std::pow\<close> with a fractional exponent is only reached
  with a non-negative base and is \<open>powr\<close>. Step counts and depths (\<^verbatim>\<open>int\<close>) are
  mathematical integers; no loop of the source overflows its counter for counts below
  \<^verbatim>\<open>INT_MAX\<close>. Where the source divides by a quantity that can be zero (a step count of
  zero, an absolute temperature of zero), IEEE arithmetic produces an infinity or a NaN and
  the real-number model does not follow it; no statement below depends on those inputs.
\<close>

text \<open>\<^verbatim>\<open>WaterThermoProps\<close>: density and its partial derivatives (SI units).\<close>

record WaterThermoProps =
  D   :: real
  DP  :: real
  DT  :: real
  DTT :: real
  DTP :: real
  DPP :: real

text \<open>\<^verbatim>\<open>WaterElectroProps\<close>: dielectric constant, its derivatives and the Born coefficients.\<close>

record WaterElectroProps =
  epsilon   :: real
  epsilonT  :: real
  epsilonP  :: real
  epsilonTT :: real
  epsilonTP :: real
  epsilonPP :: real
  bornZ :: real
  bornY :: real
  bornQ :: real
  bornN :: real
  bornU :: real
  bornX :: real

text \<open>\<^verbatim>\<open>WaterSolventFunctionOptions\<close> (WaterSolventFunctionDEW.hpp).\<close>

record WaterSolventFunctionOptions =
  Psat :: bool
  densityEquation :: int

text \<open>\<^verbatim>\<open>WaterBornOmegaOptions\<close> (WaterBornOmegaDEW.hpp); the default cutoff is 6000 bar in Pa.\<close>

record WaterBornOmegaOptions =
  solvent :: WaterSolventFunctionOptions
  isHydrogenLike :: bool
  maxPressureForVariation :: real

definition defaultWaterSolventFunctionOptions :: WaterSolventFunctionOptions where
  "defaultWaterSolventFunctionOptions = \<lparr> Psat = False, densityEquation = 0 \<rparr>"

definition defaultWaterBornOmegaOptions :: WaterBornOmegaOptions where
  "defaultWaterBornOmegaOptions =
     \<lparr> solvent = defaultWaterSolventFunctionOptions,
       isHydrogenLike = False,
       maxPressureForVariation = 6000 * 10 ^ 5 \<rparr>"

section \<open>Saturation-curve polynomials (WaterPsatPolynomialsDEW.cpp)\<close>

definition toCelsius :: "real \<Rightarrow> real" where
  "toCelsius T_K = T_K - 273.15"

definition waterPsatDensityDEW :: "real \<Rightarrow> real" where
  "waterPsatDensityDEW T_K =
     (let T_C = toCelsius T_K;
          T2 = T_C * T_C;
          T3 = T2 * T_C;
          T4 = T2 * T2;
          T10 = T_C ^ 10;
          T40 = T_C ^ 40;
          rho_g_cm3 =
              - (1.01023381581205 / 10 ^ 104) * T40
            + - (1.1368599785953 / 10 ^ 27) * T10
            + - (2.11689207168779 / 10 ^ 11) * T4
            + (1.26878850169523 / 10 ^ 8) * T3
            + - (4.92010672693621 / 10 ^ 6) * T2
            + - (3.2666598612692 / 10 ^ 5) * T_C
            + 1.00046144613017
      in rho_g_cm3 * 1000)"

definition waterPsatEpsilonDEW :: "real \<Rightarrow> real" where
  "waterPsatEpsilonDEW T_K =
     (let T_C = toCelsius T_K;
          T2 = T_C * T_C;
          T3 = T2 * T_C;
          T30 = T_C ^ 30
      in   - (1.66686763214295 / 10 ^ 77) * T30
         + - (9.02887020379887 / 10 ^ 7) * T3
         + (8.4590281449009 / 10 ^ 4) * T2
         + - 0.396542037778945 * T_C
         + 87.605024245432)"

definition waterPsatBornQDEW :: "real \<Rightarrow> real" where
  "waterPsatBornQDEW T_K =
     (let T_C = toCelsius T_K;
          T2 = T_C * T_C;
          T3 = T2 * T_C;
          T4 = T2 * T2;
          T5 = T4 * T_C;
          T6 = T3 * T3;
          T20 = T_C ^ 20;
          poly =
              (1.99258688758345 / 10 ^ 49) * T20
            + - (4.43690270750774 / 10 ^ 14) * T6
            + (4.29110215680165 / 10 ^ 11) * T5
            + - (1.07146606081182 / 10 ^ 8) * T4
            + (1.09982931856694 / 10 ^ 6) * T3
            + (9.60705240954956 / 10 ^ 6) * T2
            + 0.642579832259358;
          Q_bar = poly * (1 / 10 ^ 6);
          Q_Pa = Q_bar * (1 / 10 ^ 5)
      in Q_Pa)"

definition waterPsatDgdPDEW :: "real \<Rightarrow> real" where
  "waterPsatDgdPDEW T_K =
     (let T_C = toCelsius T_K in
      if T_C < 0.01 then 0
      else
        let lnT = ln T_C;
            expo =
                (1.37105493109451 / 10 ^ 10) * lnT ^ 15
              - (1.43605469318795 / 10 ^ 6) * lnT ^ 10
              + 26.2649453651117 * lnT
              - 125.108856715714;
            dgdP_A_per_bar = exp expo * (1 / 10 ^ 6)
        in dgdP_A_per_bar)"

section \<open>Solvent (Born-g) function (WaterSolventFunctionDEW.cpp)\<close>

definition rho_si_to_g_cm3 :: "real \<Rightarrow> real" where
  "rho_si_to_g_cm3 rho_si = rho_si / 1000"

definition drho_si_dP_to_g_cm3_per_bar :: "real \<Rightarrow> real" where
  "drho_si_dP_to_g_cm3_per_bar DP_si = DP_si * 100"

definition solvent_a_g :: "real \<Rightarrow> real" where
  "solvent_a_g T_C = - 2.037662 + 0.005747 * T_C - (6.557892 / 10 ^ 6) * T_C * T_C"

definition solvent_b_g :: "real \<Rightarrow> real" where
  "solvent_b_g T_C = 6.107361 - 0.01074377 * T_C + (1.268348 / 10 ^ 5) * T_C * T_C"

text \<open>
  The correction term \<open>f\<close>, nonzero only for \<open>P \<le> 1000\<close> bar and 155 to 355 degrees
  Celsius. The source writes the block twice (saturation and general branch) with the
  pressure in bar as the only difference.
\<close>

definition solvent_f :: "real \<Rightarrow> real \<Rightarrow> real" where
  "solvent_f P_bar T_C =
     (if P_bar \<le> 1000 \<and> T_C \<ge> 155 \<and> T_C \<le> 355 then
        let x = (T_C - 155) / 300;
            x_4_8 = x powr 4.8;
            x_16 = x ^ 16
        in (x_4_8 + 36.66666 * x_16) *
           (- (1.504956 / 10 ^ 10) * (1000 - P_bar) ^ 3
            + (5.017997 / 10 ^ 14) * (1000 - P_bar) ^ 4)
      else 0)"

definition solvent_dfdP_bar :: "real \<Rightarrow> real \<Rightarrow> real" where
  "solvent_dfdP_bar P_bar T_C =
     (if P_bar \<le> 1000 \<and> T_C \<ge> 155 \<and> T_C \<le> 355 then
        let x = (T_C - 155) / 300;
            x_4_8 = x powr 4.8;
            x_16 = x ^ 16
        in - (x_4_8 + 36.66666 * x_16) *
           (3 * - (1.504956 / 10 ^ 10) * (1000 - P_bar) ^ 2
            + 4 * (5.017997 / 10 ^ 14) * (1000 - P_bar) ^ 3)
      else 0)"

text \<open>
  \<^verbatim>\<open>waterSolventFunctionDEW\<close>. The Wagner-Pruss saturation pressure is library code
  outside the repository; it is the parameter \<open>psatWP\<close> (Pa as a function of K).
\<close>

definition waterSolventFunctionDEW ::
  "(real \<Rightarrow> real) \<Rightarrow> real \<Rightarrow> real \<Rightarrow> WaterThermoProps \<Rightarrow> WaterSolventFunctionOptions \<Rightarrow> real" where
  "waterSolventFunctionDEW psatWP T P wt opt =
     (let T_K = T; T_C = toCelsius T_K in
      if Psat opt then
        let rho_psat_kg_m3 = waterPsatDensityDEW T_K;
            rho_psat_g_cm3 = rho_psat_kg_m3 / 1000
        in if rho_psat_g_cm3 \<ge> 1 then 0
           else
             let Psat_Pa = psatWP T_K;
                 Psat_bar = Psat_Pa * (1 / 10 ^ 5);
                 a_g = solvent_a_g T_C;
                 b_g = solvent_b_g T_C;
                 f = solvent_f Psat_bar T_C;
                 one_minus_rho = 1 - rho_psat_g_cm3
             in a_g * (one_minus_rho powr b_g) - f
      else
        let P_bar = P * (1 / 10 ^ 5);
            rho_g = rho_si_to_g_cm3 (D wt)
        in if rho_g \<ge> 1 then 0
           else
             let a_g = solvent_a_g T_C;
                 b_g = solvent_b_g T_C;
                 f = solvent_f P_bar T_C;
                 one_minus_rho = 1 - rho_g
             in a_g * (one_minus_rho powr b_g) - f)"

definition waterSolventFunctionDgdP_DEW ::
  "real \<Rightarrow> real \<Rightarrow> WaterThermoProps \<Rightarrow> real \<Rightarrow> WaterSolventFunctionOptions \<Rightarrow> real" where
  "waterSolventFunctionDgdP_DEW T P wt g opt =
     (let T_K = T; T_C = toCelsius T_K in
      if Psat opt then waterPsatDgdPDEW T_K
      else
        let P_bar = P * (1 / 10 ^ 5);
            rho_g = rho_si_to_g_cm3 (D wt)
        in if rho_g \<ge> 1 then 0
           else
             let b_g = solvent_b_g T_C;
                 dfdP_bar = solvent_dfdP_bar P_bar T_C;
                 drho_g_dP_bar = drho_si_dP_to_g_cm3_per_bar (DP wt);
                 one_minus_rho = 1 - rho_g;
                 dgdP_bar = - b_g * drho_g_dP_bar * g / one_minus_rho - dfdP_bar
             in dgdP_bar * (1 / 10 ^ 5))"

section \<open>Born omega model (WaterBornOmegaDEW.cpp)\<close>

definition eta_cal_per_A :: real where
  "eta_cal_per_A = 166027"

definition compute_g ::
  "(real \<Rightarrow> real) \<Rightarrow> real \<Rightarrow> real \<Rightarrow> WaterThermoProps \<Rightarrow> WaterBornOmegaOptions \<Rightarrow> real" where
  "compute_g psatWP T P wt opt = waterSolventFunctionDEW psatWP T P wt (solvent opt)"

definition compute_dgdP ::
  "real \<Rightarrow> real \<Rightarrow> WaterThermoProps \<Rightarrow> real \<Rightarrow> WaterBornOmegaOptions \<Rightarrow> real" where
  "compute_dgdP T P wt g opt = waterSolventFunctionDgdP_DEW T P wt g (solvent opt)"

text \<open>The reference-radius denominator \<^verbatim>\<open>denom\<close> and the radius \<^verbatim>\<open>re_A\<close> of the source.\<close>

definition born_denom :: "real \<Rightarrow> real \<Rightarrow> real" where
  "born_denom wref_Jmol Z = (wref_Jmol / 4.184) / eta_cal_per_A + Z / 3.082"

definition born_re_A ::
  "(real \<Rightarrow> real) \<Rightarrow> real \<Rightarrow> real \<Rightarrow> WaterThermoProps \<Rightarrow> real \<Rightarrow> real \<Rightarrow> WaterBornOmegaOptions \<Rightarrow> real" where
  "born_re_A psatWP T P wt wref_Jmol Z opt =
     (Z * Z) / born_denom wref_Jmol Z + \<bar>Z\<bar> * compute_g psatWP T P wt opt"

definition waterBornOmegaDEW ::
  "(real \<Rightarrow> real) \<Rightarrow> real \<Rightarrow> real \<Rightarrow> WaterThermoProps \<Rightarrow> real \<Rightarrow> real \<Rightarrow> WaterBornOmegaOptions \<Rightarrow> real" where
  "waterBornOmegaDEW psatWP T P wt wref_Jmol Z opt =
     (if Z = 0 \<or> isHydrogenLike opt \<or> P > maxPressureForVariation opt then wref_Jmol
      else
        let denom = born_denom wref_Jmol Z in
        if denom = 0 then wref_Jmol
        else
          let g = compute_g psatWP T P wt opt;
              re_A = born_re_A psatWP T P wt wref_Jmol Z opt
          in if re_A \<le> 0 then wref_Jmol
             else
               let omega_cal = eta_cal_per_A * ((Z * Z) / re_A - Z / (3.082 + g));
                   omega_J = omega_cal * 4.184
               in omega_J)"

definition waterBornDOmegaDP_DEW ::
  "(real \<Rightarrow> real) \<Rightarrow> real \<Rightarrow> real \<Rightarrow> WaterThermoProps \<Rightarrow> real \<Rightarrow> real \<Rightarrow> WaterBornOmegaOptions \<Rightarrow> real" where
  "waterBornDOmegaDP_DEW psatWP T P wt wref_Jmol Z opt =
     (if Z = 0 \<or> isHydrogenLike opt \<or> P > maxPressureForVariation opt then 0
      else
        let denom = born_denom wref_Jmol Z in
        if denom = 0 then 0
        else
          let g = compute_g psatWP T P wt opt;
              dgdP = compute_dgdP T P wt g opt;
              re_A = born_re_A psatWP T P wt wref_Jmol Z opt
          in if re_A \<le> 0 then 0
             else
               let term = \<bar>Z\<bar> ^ 3 / (re_A * re_A) - Z / ((3.082 + g) * (3.082 + g));
                   domega_dP_cal_per_Pa = - eta_cal_per_A * term * dgdP;
                   domega_dP_J_per_Pa = domega_dP_cal_per_Pa * 4.184
               in domega_dP_J_per_Pa)"

section \<open>Equation of state: Zhang and Duan 2005 (WaterEosZhangDuan2005.cpp)\<close>

definition M_H2O :: real where "M_H2O = 18.01528"
definition ZD05_R :: real where "ZD05_R = 83.144"
definition ZD05_Vc :: real where "ZD05_Vc = 55.9480373"
definition ZD05_Tc :: real where "ZD05_Tc = 647.25"

definition bar_from_P_Pa :: "real \<Rightarrow> real" where
  "bar_from_P_Pa P_Pa = P_Pa * (1 / 10 ^ 5)"

definition rho_kg_m3_from_g_cm3 :: "real \<Rightarrow> real" where
  "rho_kg_m3_from_g_cm3 rho_g_cm3 = rho_g_cm3 * 1000"

definition drho_kg_m3_per_Pa_from_g_cm3_per_bar :: "real \<Rightarrow> real" where
  "drho_kg_m3_per_Pa_from_g_cm3_per_bar drho_g_cm3_per_bar = drho_g_cm3_per_bar * 0.01"

definition zd05_pressure_bar :: "real \<Rightarrow> real \<Rightarrow> real" where
  "zd05_pressure_bar rho_g_cm3 T_C =
     (let T_K = T_C + 273.15;
          Vr = M_H2O / (rho_g_cm3 * ZD05_Vc);
          Tr = T_K / ZD05_Tc;
          B = 0.349824207 - 2.91046273 / (Tr * Tr) + 2.00914688 / (Tr * Tr * Tr);
          C = 0.112819964 + 0.748997714 / (Tr * Tr) - 0.87320704 / (Tr * Tr * Tr);
          D' = 0.0170609505 - 0.0146355822 / (Tr * Tr) + 0.0579768283 / (Tr * Tr * Tr);
          E = - 0.000841246372 + 0.00495186474 / (Tr * Tr) - 0.00916248538 / (Tr * Tr * Tr);
          f = - 0.100358152 / Tr;
          g = - 0.00182674744 * Tr;
          delta = 1 + B / Vr + C / (Vr * Vr) + D' / Vr ^ 4 + E / Vr ^ 5
                  + (f / (Vr * Vr) + g / Vr ^ 4) * exp (- 0.0105999998 / (Vr * Vr));
          P_bar = ZD05_R * T_K * rho_g_cm3 * delta / M_H2O
      in P_bar)"

text \<open>
  The bisection of \<^verbatim>\<open>zd05_density_g_cm3\<close>. The bracket is the triple
  \<open>(rho_min, rho_max, rho)\<close> of the three local variables; \<open>zd05_next\<close> is the update at
  the end of the loop body. The loop returns, besides the density, the number of loop
  bodies it has run and whether it left through the \<^verbatim>\<open>return\<close> inside the loop
  (\<open>True\<close>) or through the one after it (\<open>False\<close>).
\<close>

definition zd05_accept :: "real \<Rightarrow> real \<Rightarrow> real \<Rightarrow> real \<Rightarrow> bool" where
  "zd05_accept P_bar_target T_C error_bar rho_g_cm3 =
     (\<bar>zd05_pressure_bar rho_g_cm3 T_C - P_bar_target\<bar> \<le> error_bar)"

fun zd05_next :: "real \<Rightarrow> real \<Rightarrow> real \<times> real \<times> real \<Rightarrow> real \<times> real \<times> real" where
  "zd05_next P_bar_target T_C (rho_min, rho_max, rho) =
     (let P_bar = zd05_pressure_bar rho T_C;
          diff = P_bar - P_bar_target
      in if diff > 0 then (rho_min, rho, 0.5 * (rho + rho_min))
         else (rho, rho_max, 0.5 * (rho + rho_max)))"

function zd05_loop ::
  "real \<Rightarrow> real \<Rightarrow> real \<Rightarrow> int \<Rightarrow> real \<times> real \<times> real \<Rightarrow> real \<times> int \<times> bool" where
  "zd05_loop P_bar_target T_C error_bar iter (rho_min, rho_max, rho) =
     (if iter < 50 then
        if zd05_accept P_bar_target T_C error_bar rho then (rho, iter + 1, True)
        else zd05_loop P_bar_target T_C error_bar (iter + 1)
               (zd05_next P_bar_target T_C (rho_min, rho_max, rho))
      else (rho, iter, False))"
  by pat_completeness auto
termination
  by (relation "measure (\<lambda>(P_bar_target, T_C, error_bar, iter, b). nat (50 - iter))") auto

declare zd05_loop.simps [simp del]

definition zd05_init :: "real \<times> real \<times> real" where
  "zd05_init = (1 / 10 ^ 5, 2.5, 1 / 10 ^ 5)"

definition zd05_bisect :: "real \<Rightarrow> real \<Rightarrow> real \<Rightarrow> real \<times> int \<times> bool" where
  "zd05_bisect P_bar_target T_C error_bar = zd05_loop P_bar_target T_C error_bar 0 zd05_init"

definition zd05_density_g_cm3 :: "real \<Rightarrow> real \<Rightarrow> real \<Rightarrow> real" where
  "zd05_density_g_cm3 P_bar_target T_C error_bar = fst (zd05_bisect P_bar_target T_C error_bar)"

text \<open>The bracket after \<open>k\<close> updates, and its current density: the \<open>k\<close>-th iterate.\<close>

primrec zd05_bracket :: "real \<Rightarrow> real \<Rightarrow> nat \<Rightarrow> real \<times> real \<times> real" where
  "zd05_bracket P_bar_target T_C 0 = zd05_init"
| "zd05_bracket P_bar_target T_C (Suc k) = zd05_next P_bar_target T_C (zd05_bracket P_bar_target T_C k)"

definition zd05_iterate :: "real \<Rightarrow> real \<Rightarrow> nat \<Rightarrow> real" where
  "zd05_iterate P_bar_target T_C k = snd (snd (zd05_bracket P_bar_target T_C k))"

definition zd05_drhodP_g_cm3_per_bar :: "real \<Rightarrow> real \<Rightarrow> real" where
  "zd05_drhodP_g_cm3_per_bar rho_g_cm3 T_C =
     (let T_K = T_C + 273.15;
          Tr = T_K / ZD05_Tc;
          cc = ZD05_Vc / M_H2O;
          Vr = M_H2O / (rho_g_cm3 * ZD05_Vc);
          B = 0.349824207 - 2.91046273 / (Tr * Tr) + 2.00914688 / (Tr * Tr * Tr);
          C = 0.112819964 + 0.748997714 / (Tr * Tr) - 0.87320704 / (Tr * Tr * Tr);
          D' = 0.0170609505 - 0.0146355822 / (Tr * Tr) + 0.0579768283 / (Tr * Tr * Tr);
          E = - 0.000841246372 + 0.00495186474 / (Tr * Tr) - 0.00916248538 / (Tr * Tr * Tr);
          f = - 0.100358152 / Tr;
          g = 0.0105999998 * Tr;
          Vr2 = Vr * Vr;
          Vr4 = Vr2 * Vr2;
          Vr5 = Vr4 * Vr;
          expterm = exp (- 0.0105999998 / Vr2);
          delta = 1 + B / Vr + C / Vr2 + D' / Vr4 + E / Vr5 + (f / Vr2 + g / Vr4) * expterm;
          rho_l = rho_g_cm3;
          kappa = B * cc
                + 2 * C * (cc * cc) * rho_l
                + 4 * D' * cc ^ 4 * rho_l ^ 3
                + 5 * E * cc ^ 5 * rho_l ^ 4
                + (2 * f * (cc * cc) * rho_l
                   + 4 * g * cc ^ 4 * rho_l ^ 3
                   - (f / Vr2 + g / Vr4) * (2 * 0.0105999998 * (cc * cc) * rho_l)) * expterm
      in M_H2O / (ZD05_R * T_K * (delta + rho_l * kappa)))"

definition waterThermoPropsZhangDuan2005 :: "real \<Rightarrow> real \<Rightarrow> real \<Rightarrow> WaterThermoProps" where
  "waterThermoPropsZhangDuan2005 T P densityTolerance =
     (let T_K = T;
          T_C = T_K - 273.15;
          P_bar = bar_from_P_Pa P;
          rho_g_cm3 = zd05_density_g_cm3 P_bar T_C densityTolerance;
          rho_kg_m3 = rho_kg_m3_from_g_cm3 rho_g_cm3;
          drho_g_cm3_per_bar = zd05_drhodP_g_cm3_per_bar rho_g_cm3 T_C;
          drho_kg_m3_per_Pa = drho_kg_m3_per_Pa_from_g_cm3_per_bar drho_g_cm3_per_bar
      in \<lparr> D = rho_kg_m3, DP = drho_kg_m3_per_Pa, DT = 0, DTT = 0, DTP = 0, DPP = 0 \<rparr>)"

section \<open>Equation of state: Zhang and Duan 2009 (WaterEosZhangDuan2009.cpp)\<close>

text \<open>\<^verbatim>\<open>WaterZhangDuan2009Options\<close>; defaults: no saturation branch, 0.01 bar, 50 iterations.\<close>

record WaterZhangDuan2009Options =
  usePsat :: bool
  pressureToleranceBar :: real
  maxIterations :: int

definition defaultWaterZhangDuan2009Options :: WaterZhangDuan2009Options where
  "defaultWaterZhangDuan2009Options =
     \<lparr> usePsat = False, pressureToleranceBar = 0.01, maxIterations = 50 \<rparr>"

definition ZD09_R :: real where "ZD09_R = 0.083145"
definition ZD09_c1 :: real where "ZD09_c1 = 6.971118009"
definition ZD09_c4 :: real where "ZD09_c4 = 1"
definition H2O_M :: real where "H2O_M = 18.01528"

definition kelvinToCelsius :: "real \<Rightarrow> real" where
  "kelvinToCelsius T = T - 273.15"

definition pascalToBar :: "real \<Rightarrow> real" where
  "pascalToBar P = P * (1 / 10 ^ 5)"

definition densityPsatPoly_DEW :: "real \<Rightarrow> real" where
  "densityPsatPoly_DEW T_C =
       - (1.01023381581205 / 10 ^ 104) * T_C ^ 40
     + - (1.13685997859530 / 10 ^ 27) * T_C ^ 10
     + - (2.11689207168779 / 10 ^ 11) * T_C ^ 4
     + (1.26878850169523 / 10 ^ 8) * T_C ^ 3
     + - (4.92010672693621 / 10 ^ 6) * T_C ^ 2
     + - (3.26665986126920 / 10 ^ 5) * T_C
     + 1.00046144613017"

definition calculatePressure_ZD09 :: "real \<Rightarrow> real \<Rightarrow> real" where
  "calculatePressure_ZD09 rho_g_cm3 T_C =
     (let m = H2O_M;
          TK = T_C + 273.15;
          dm = 475.05656886 * rho_g_cm3;
          Vm = 0.0021050125 * (m / rho_g_cm3);
          Tm = 0.3019607843 * TK;
          B = 0.029517729893 - 6337.56452413 / (Tm * Tm) - 275265.428882 / (Tm * Tm * Tm);
          C = 0.00129128089283 - 145.797416153 / (Tm * Tm) + 76593.8947237 / (Tm * Tm * Tm);
          D' = 2.58661493537 / 10 ^ 6 + 0.52126532146 / (Tm * Tm) - 139.839523753 / (Tm * Tm * Tm);
          E = - (2.36335007175 / 10 ^ 8) + 0.00535026383543 / (Tm * Tm)
              - 0.27110649951 / (Tm * Tm * Tm);
          f = 25038.7836486 / (Tm * Tm * Tm);
          Vm2 = Vm * Vm;
          Vm4 = Vm2 * Vm2;
          Vm5 = Vm4 * Vm;
          expterm = exp (- 0.015483335997 / Vm2);
          delta = 1 + B / Vm + C / Vm2 + D' / Vm4 + E / Vm5
                  + f / Vm2 * (0.73226726041 + 0.015483335997 / Vm2) * expterm;
          Pm_bar = ZD09_R * Tm * delta / Vm
      in Pm_bar * ZD09_c1)"

text \<open>
  The bisection of \<^verbatim>\<open>calculateDensity_ZD09\<close>, with the same conventions as for the 2005
  variant; the flag tells whether the loop was left through \<^verbatim>\<open>break\<close>.
\<close>

definition zd09_accept :: "real \<Rightarrow> real \<Rightarrow> real \<Rightarrow> real \<Rightarrow> bool" where
  "zd09_accept P_bar T_C tol rho_g_cm3 =
     (\<bar>calculatePressure_ZD09 rho_g_cm3 T_C - P_bar\<bar> \<le> tol)"

fun zd09_next :: "real \<Rightarrow> real \<Rightarrow> real \<times> real \<times> real \<Rightarrow> real \<times> real \<times> real" where
  "zd09_next P_bar T_C (minGuess, maxGuess, rho) =
     (let P_calc = calculatePressure_ZD09 rho T_C
      in if P_calc > P_bar then (minGuess, rho, 0.5 * (rho + minGuess))
         else (rho, maxGuess, 0.5 * (rho + maxGuess)))"

function zd09_loop ::
  "real \<Rightarrow> real \<Rightarrow> WaterZhangDuan2009Options \<Rightarrow> int \<Rightarrow> real \<times> real \<times> real \<Rightarrow> real \<times> int \<times> bool" where
  "zd09_loop P_bar T_C opts i (minGuess, maxGuess, rho) =
     (if i < maxIterations opts then
        if zd09_accept P_bar T_C (pressureToleranceBar opts) rho then (rho, i + 1, True)
        else zd09_loop P_bar T_C opts (i + 1) (zd09_next P_bar T_C (minGuess, maxGuess, rho))
      else (rho, i, False))"
  by pat_completeness auto
termination
  by (relation "measure (\<lambda>(P_bar, T_C, opts, i, b). nat (maxIterations opts - i))") auto

declare zd09_loop.simps [simp del]

definition zd09_init :: "real \<times> real \<times> real" where
  "zd09_init = (1 / 10 ^ 5, 7.5 * 2 - 5, 1 / 10 ^ 5)"

definition zd09_bisect :: "real \<Rightarrow> real \<Rightarrow> WaterZhangDuan2009Options \<Rightarrow> real \<times> int \<times> bool" where
  "zd09_bisect P_bar T_C opts = zd09_loop P_bar T_C opts 0 zd09_init"

definition calculateDensity_ZD09 :: "real \<Rightarrow> real \<Rightarrow> WaterZhangDuan2009Options \<Rightarrow> real" where
  "calculateDensity_ZD09 P_bar T_C opts =
     (if usePsat opts then densityPsatPoly_DEW T_C
      else fst (zd09_bisect P_bar T_C opts))"

primrec zd09_bracket :: "real \<Rightarrow> real \<Rightarrow> nat \<Rightarrow> real \<times> real \<times> real" where
  "zd09_bracket P_bar T_C 0 = zd09_init"
| "zd09_bracket P_bar T_C (Suc k) = zd09_next P_bar T_C (zd09_bracket P_bar T_C k)"

definition zd09_iterate :: "real \<Rightarrow> real \<Rightarrow> nat \<Rightarrow> real" where
  "zd09_iterate P_bar T_C k = snd (snd (zd09_bracket P_bar T_C k))"

definition calculate_drhodP_ZD09 :: "real \<Rightarrow> real \<Rightarrow> real" where
  "calculate_drhodP_ZD09 rho_g_cm3 T_C =
     (let m = H2O_M;
          TK = T_C + 273.15;
          dm = 475.05656886 * rho_g_cm3;
          Vm = 0.0021050125 * (m / rho_g_cm3);
          Tm = 0.3019607843 * TK;
          B = 0.029517729893 - 6337.56452413 / (Tm * Tm) - 275265.428882 / (Tm * Tm * Tm);
          C = 0.00129128089283 - 145.797416153 / (Tm * Tm) + 76593.8947237 / (Tm * Tm * Tm);
          D' = 2.58661493537 / 10 ^ 6 + 0.52126532146 / (Tm * Tm) - 139.839523753 / (Tm * Tm * Tm);
          E = - (2.36335007175 / 10 ^ 8) + 0.00535026383543 / (Tm * Tm)
              - 0.27110649951 / (Tm * Tm * Tm);
          f = 25038.7836486 / (Tm * Tm * Tm);
          Vm2 = Vm * Vm;
          Vm4 = Vm2 * Vm2;
          Vm5 = Vm4 * Vm;
          expterm = exp (- 0.015483335997 / Vm2);
          delta = 1 + B / Vm + C / Vm2 + D' / Vm4 + E / Vm5
                  + f / Vm2 * (0.73226726041 + 0.015483335997 / Vm2) * expterm;
          kappa = B / m
                + 2 * C * dm / (m * m)
                + 4 * D' * dm ^ 3 / m ^ 4
                + 5 * E * dm ^ 4 / m ^ 5
                + (2 * f * dm / (m * m) * (0.73226726041 + 0.015483335997 / Vm2)
                   + f / Vm2 * (1 - 0.73226726041 - 0.015483335997 / Vm2)
                     * (2 * 0.015483335997 * dm / (m * m))) * expterm
      in ZD09_c1 * m / (ZD09_c4 * ZD09_R * Tm * (delta + dm * kappa)))"

definition waterThermoPropsZhangDuan2009 ::
  "real \<Rightarrow> real \<Rightarrow> WaterZhangDuan2009Options \<Rightarrow> WaterThermoProps" where
  "waterThermoPropsZhangDuan2009 T P opts =
     (let T_C = kelvinToCelsius T;
          P_bar = pascalToBar P;
          rho_g_cm3 = calculateDensity_ZD09 P_bar T_C opts;
          rho_kg_m3 = rho_g_cm3 * 1000;
          drho_dP_bar_g_cm3 = calculate_drhodP_ZD09 rho_g_cm3 T_C
      in \<lparr> D = rho_kg_m3, DP = drho_dP_bar_g_cm3 * (1 / 10 ^ 2),
           DT = 0, DTT = 0, DTP = 0, DPP = 0 \<rparr>)"

section \<open>Numerical integration engine and water Gibbs energy (WaterGibbsModel.cpp)\<close>

datatype WaterEosModel = WagnerPruss | HGK | ZhangDuan2005 | ZhangDuan2009

datatype WaterGibbsModel = DelaneyHelgeson1978 | DewIntegral

datatype WaterIntegrationMethod = Trapezoidal | Simpson | GaussLegendre16 | AdaptiveSimpson

text \<open>
  \<^verbatim>\<open>WaterThermoModelOptions\<close>, with the \<^verbatim>\<open>densityTolerance\<close> member that
  \<^verbatim>\<open>gibbsDewIntegral_J_per_mol\<close> assigns.
\<close>

record WaterThermoModelOptions =
  eosModel :: WaterEosModel
  thermo_usePsatPolynomials :: bool
  thermo_psatRelativeTolerance :: real
  zhangDuan2009Options :: WaterZhangDuan2009Options
  thermo_densityTolerance :: real

record WaterGibbsModelOptions =
  model :: WaterGibbsModel
  thermo :: WaterThermoModelOptions
  usePsatPolynomials :: bool
  psatRelativeTolerance :: real
  integrationMethod :: WaterIntegrationMethod
  integrationSteps :: int
  useExcelIntegration :: bool
  adaptiveIntegrationTolerance :: real
  maxAdaptiveSubdivisions :: int
  densityTolerance :: real

text \<open>
  \<^verbatim>\<open>waterThermoPropsModel\<close> dispatches to the two Zhang-Duan modules above and to the
  Wagner-Pruss and HGK equations of state, which are library code outside the repository.
  The integration engine only reads the density of whatever it returns, so the selector is
  the parameter \<open>wtm\<close> (temperature in K, pressure in Pa, options) of every function below.
\<close>

type_synonym thermo_model = "real \<Rightarrow> real \<Rightarrow> WaterThermoModelOptions \<Rightarrow> WaterThermoProps"

text \<open>
  The quotient \<^verbatim>\<open>M / wt.D\<close>. To make visible whether the code ever divides by a density
  that is not strictly positive, the quotient is partial here: it has no value (\<open>None\<close>)
  on such a density, and the integration functions propagate \<open>None\<close>.
\<close>

definition density_quotient :: "real \<Rightarrow> real \<Rightarrow> real option" where
  "density_quotient M rho_kg_m3 = (if rho_kg_m3 > 0 then Some (M / rho_kg_m3) else None)"

text \<open>The expression \<^verbatim>\<open>(wt.D > 0.0) ? (M / wt.D) : 0.0\<close> at every integrand evaluation.\<close>

definition guardedMolarVolume :: "real \<Rightarrow> WaterThermoProps \<Rightarrow> real option" where
  "guardedMolarVolume M wt = (if D wt > 0 then density_quotient M (D wt) else Some 0)"

subsection \<open>Simpson's 1/3 rule\<close>

text \<open>
  The two loops of \<^verbatim>\<open>simpsonRule\<close> (odd indices with weight 4 from \<open>i = 1\<close>, even indices
  with weight 2 from \<open>i = 2\<close>) are one function of the weight and the start index.
\<close>

function simpson_loop ::
  "thermo_model \<Rightarrow> real \<Rightarrow> real \<Rightarrow> real \<Rightarrow> int \<Rightarrow> WaterThermoModelOptions \<Rightarrow> real
     \<Rightarrow> real \<Rightarrow> int \<Rightarrow> real \<Rightarrow> real option" where
  "simpson_loop wtm T_K P_start_Pa h nsteps thermoWithTol M weight i sum_acc =
     (if i < nsteps then
        do {
          Vm \<leftarrow> guardedMolarVolume M (wtm T_K (P_start_Pa + real_of_int i * h) thermoWithTol);
          simpson_loop wtm T_K P_start_Pa h nsteps thermoWithTol M weight (i + 2) (sum_acc + weight * Vm)
        }
      else Some sum_acc)"
  by pat_completeness auto
termination
  by (relation "measure (\<lambda>(wtm, T_K, P_start_Pa, h, nsteps, thermoWithTol, M, weight, i, sum_acc).
                  nat (nsteps - i))") auto

declare simpson_loop.simps [simp del]

definition simpsonRule ::
  "thermo_model \<Rightarrow> real \<Rightarrow> real \<Rightarrow> real \<Rightarrow> int \<Rightarrow> WaterThermoModelOptions \<Rightarrow> real \<Rightarrow> real option" where
  "simpsonRule wtm T_K P_start_Pa P_end_Pa nsteps0 thermoWithTol M =
     (let nsteps = (if nsteps0 mod 2 \<noteq> 0 then nsteps0 + 1 else nsteps0);
          h = (P_end_Pa - P_start_Pa) / real_of_int nsteps
      in do {
           Vm_left \<leftarrow> guardedMolarVolume M (wtm T_K P_start_Pa thermoWithTol);
           sum_odd \<leftarrow> simpson_loop wtm T_K P_start_Pa h nsteps thermoWithTol M 4 1 Vm_left;
           sum_even \<leftarrow> simpson_loop wtm T_K P_start_Pa h nsteps thermoWithTol M 2 2 sum_odd;
           Vm_right \<leftarrow> guardedMolarVolume M (wtm T_K P_end_Pa thermoWithTol);
           Some ((h / 3) * (sum_even + Vm_right))
         })"

subsection \<open>16-point Gauss-Legendre quadrature\<close>

text \<open>\<^verbatim>\<open>GaussLegendre16::nodes\<close> and \<^verbatim>\<open>GaussLegendre16::weights\<close>, paired by index.\<close>

definition gl16_nodes :: "real list" where
  "gl16_nodes =
     [- 0.9894009349916500, - 0.9445750230732326, - 0.8656312023878921, - 0.7554044083550030,
      - 0.6178762444026437, - 0.4545454545454545, - 0.2736629541353671, - 0.0914297953593871,
        0.0914297953593871,   0.2736629541353671,   0.4545454545454545,   0.6178762444026437,
        0.7554044083550030,   0.8656312023878921,   0.9445750230732326,   0.9894009349916500]"

definition gl16_weights :: "real list" where
  "gl16_weights =
     [0.0271524594117540, 0.0622535239386479, 0.0951585116824927, 0.1246289712555339,
      0.1495959888165767, 0.1691423829631435, 0.1826034150449235, 0.1894506104550585,
      0.1894506104550585, 0.1826034150449235, 0.1691423829631435, 0.1495959888165767,
      0.1246289712555339, 0.0951585116824927, 0.0622535239386479, 0.0271524594117540]"

text \<open>The inner loop over the 16 nodes of one segment.\<close>

fun gl16_segment ::
  "thermo_model \<Rightarrow> real \<Rightarrow> WaterThermoModelOptions \<Rightarrow> real \<Rightarrow> real \<Rightarrow> real
     \<Rightarrow> (real \<times> real) list \<Rightarrow> real \<Rightarrow> real option" where
  "gl16_segment wtm T_K thermoWithTol M center half_width [] seg_integral = Some seg_integral"
| "gl16_segment wtm T_K thermoWithTol M center half_width ((node, weight) # rest) seg_integral =
     do {
       Vm \<leftarrow> guardedMolarVolume M (wtm T_K (center + half_width * node) thermoWithTol);
       gl16_segment wtm T_K thermoWithTol M center half_width rest (seg_integral + weight * Vm)
     }"

function gl16_loop ::
  "thermo_model \<Rightarrow> real \<Rightarrow> real \<Rightarrow> real \<Rightarrow> int \<Rightarrow> WaterThermoModelOptions \<Rightarrow> real
     \<Rightarrow> int \<Rightarrow> real \<Rightarrow> real option" where
  "gl16_loop wtm T_K P_start_Pa segment_width nsegments thermoWithTol M seg integral =
     (if seg < nsegments then
        let P_seg_start = P_start_Pa + real_of_int seg * segment_width;
            P_seg_end = P_seg_start + segment_width;
            center = (P_seg_start + P_seg_end) / 2;
            half_width = segment_width / 2
        in do {
             seg_integral \<leftarrow> gl16_segment wtm T_K thermoWithTol M center half_width
                               (zip gl16_nodes gl16_weights) 0;
             gl16_loop wtm T_K P_start_Pa segment_width nsegments thermoWithTol M (seg + 1)
               (integral + half_width * seg_integral)
           }
      else Some integral)"
  by pat_completeness auto
termination
  by (relation "measure (\<lambda>(wtm, T_K, P_start_Pa, segment_width, nsegments, thermoWithTol, M,
                  seg, integral). nat (nsegments - seg))") auto

declare gl16_loop.simps [simp del]

definition gaussLegendre16 ::
  "thermo_model \<Rightarrow> real \<Rightarrow> real \<Rightarrow> real \<Rightarrow> int \<Rightarrow> WaterThermoModelOptions \<Rightarrow> real \<Rightarrow> real option" where
  "gaussLegendre16 wtm T_K P_start_Pa P_end_Pa nsegments thermoWithTol M =
     (let segment_width = (P_end_Pa - P_start_Pa) / real_of_int nsegments
      in gl16_loop wtm T_K P_start_Pa segment_width nsegments thermoWithTol M 0 0)"

subsection \<open>Adaptive Simpson\<close>

function adaptiveSimpsonsHelper ::
  "thermo_model \<Rightarrow> real \<Rightarrow> real \<Rightarrow> real \<Rightarrow> real \<Rightarrow> int \<Rightarrow> int \<Rightarrow> WaterThermoModelOptions
     \<Rightarrow> real \<Rightarrow> real \<Rightarrow> real \<Rightarrow> real option" where
  "adaptiveSimpsonsHelper wtm T_K P_L P_R tol max_depth current_depth thermoWithTol M Vm_L Vm_R =
     (if current_depth > max_depth then Some 0
      else
        let P_mid = (P_L + P_R) / 2 in
        do {
          Vm_mid \<leftarrow> guardedMolarVolume M (wtm T_K P_mid thermoWithTol);
          let h = (P_R - P_L) / 6;
              S = h * (Vm_L + 4 * Vm_mid + Vm_R);
              error_estimator = \<bar>Vm_mid - 0.5 * (Vm_L + Vm_R)\<bar>
          in if error_estimator \<le> tol then Some S
             else do {
               Vm_left_mid \<leftarrow> guardedMolarVolume M (wtm T_K ((P_L + P_mid) / 2) thermoWithTol);
               Vm_right_mid \<leftarrow> guardedMolarVolume M (wtm T_K ((P_mid + P_R) / 2) thermoWithTol);
               left_integral \<leftarrow> adaptiveSimpsonsHelper wtm T_K P_L P_mid (tol / 2) max_depth
                                  (current_depth + 1) thermoWithTol M Vm_L Vm_mid;
               right_integral \<leftarrow> adaptiveSimpsonsHelper wtm T_K P_mid P_R (tol / 2) max_depth
                                   (current_depth + 1) thermoWithTol M Vm_mid Vm_R;
               Some (left_integral + right_integral)
             }
        })"
  by pat_completeness auto
termination
  by (relation "measure (\<lambda>(wtm, T_K, P_L, P_R, tol, max_depth, current_depth, thermoWithTol, M,
                  Vm_L, Vm_R). nat (max_depth + 1 - current_depth))") auto

declare adaptiveSimpsonsHelper.simps [simp del]

definition adaptiveSimpson ::
  "thermo_model \<Rightarrow> real \<Rightarrow> real \<Rightarrow> real \<Rightarrow> real \<Rightarrow> int \<Rightarrow> WaterThermoModelOptions \<Rightarrow> real
     \<Rightarrow> real option" where
  "adaptiveSimpson wtm T_K P_start_Pa P_end_Pa tol max_depth thermoWithTol M =
     do {
       Vm_start \<leftarrow> guardedMolarVolume M (wtm T_K P_start_Pa thermoWithTol);
       Vm_end \<leftarrow> guardedMolarVolume M (wtm T_K P_end_Pa thermoWithTol);
       adaptiveSimpsonsHelper wtm T_K P_start_Pa P_end_Pa tol max_depth 0 thermoWithTol M
         Vm_start Vm_end
     }"

subsection \<open>The DEW integral Gibbs model\<close>

definition GAtOneKb_cal_per_mol :: "real \<Rightarrow> real" where
  "GAtOneKb_cal_per_mol T_C =
       (2.6880734 / 10 ^ 9) * T_C ^ 4
     + (6.3163061 / 10 ^ 7) * T_C ^ 3
     - (1.9372355 / 10 ^ 2) * (T_C * T_C)
     - 16.945093 * T_C
     - 55769.287"

text \<open>
  The spreadsheet-compatible loop
  \<^verbatim>\<open>for (Pstep_bar = 1000.0; Pstep_bar <= P_bar + 1e-9; Pstep_bar += spacing_bar)\<close>.
  Its step is at least 1 bar, which is what makes it terminate.
\<close>

definition excel_spacing_bar :: "real \<Rightarrow> real" where
  "excel_spacing_bar P_bar = max 1 ((P_bar - 1000) / 5000)"

function excel_loop ::
  "thermo_model \<Rightarrow> real \<Rightarrow> real \<Rightarrow> WaterThermoModelOptions \<Rightarrow> real \<Rightarrow> real \<Rightarrow> real
     \<Rightarrow> real option" where
  "excel_loop wtm T_K P_bar thermoWithTol M Pstep_bar G_int_J =
     (let spacing_bar = excel_spacing_bar P_bar;
          spacing_Pa = spacing_bar * 10 ^ 5
      in if Pstep_bar \<le> P_bar + 1 / 10 ^ 9 then
           let Pstep_Pa = Pstep_bar * 10 ^ 5;
               wt = wtm T_K Pstep_Pa thermoWithTol
           in if D wt \<le> 0 then
                excel_loop wtm T_K P_bar thermoWithTol M (Pstep_bar + spacing_bar) G_int_J
              else do {
                Vm \<leftarrow> density_quotient M (D wt);
                excel_loop wtm T_K P_bar thermoWithTol M (Pstep_bar + spacing_bar)
                  (G_int_J + Vm * spacing_Pa)
              }
         else Some G_int_J)"
  by pat_completeness auto
termination
proof (relation "measure (\<lambda>(wtm, T_K, P_bar, thermoWithTol, M, Pstep_bar, G_int_J).
          nat (\<lfloor>(P_bar + 1 / 10 ^ 9 - Pstep_bar) / excel_spacing_bar P_bar\<rfloor> + 1))",
       goal_cases)
  case 1
  show ?case by simp
next
  case (2 wtm T_K P_bar thermoWithTol M Pstep_bar G_int_J x xa xb xc)
  define s where "s = excel_spacing_bar P_bar"
  define lim where "lim = P_bar + 1 / 10 ^ 9"
  have s: "1 \<le> s" by (simp add: s_def excel_spacing_bar_def)
  have le: "Pstep_bar \<le> lim" using 2 by (simp add: lim_def)
  have "(lim - (Pstep_bar + s)) / s = (lim - Pstep_bar) / s - 1"
    using s by (simp add: field_simps)
  then have "\<lfloor>(lim - (Pstep_bar + s)) / s\<rfloor> = \<lfloor>(lim - Pstep_bar) / s\<rfloor> - 1"
    by simp
  moreover have "0 \<le> \<lfloor>(lim - Pstep_bar) / s\<rfloor>" using s le by simp
  ultimately have "nat (\<lfloor>(lim - (Pstep_bar + s)) / s\<rfloor> + 1) < nat (\<lfloor>(lim - Pstep_bar) / s\<rfloor> + 1)"
    by simp
  then show ?case using 2 unfolding s_def lim_def by simp
next
  case (3 wtm T_K P_bar thermoWithTol M Pstep_bar G_int_J x xa xb xc xd)
  define s where "s = excel_spacing_bar P_bar"
  define lim where "lim = P_bar + 1 / 10 ^ 9"
  have s: "1 \<le> s" by (simp add: s_def excel_spacing_bar_def)
  have le: "Pstep_bar \<le> lim" using 3 by (simp add: lim_def)
  have "(lim - (Pstep_bar + s)) / s = (lim - Pstep_bar) / s - 1"
    using s by (simp add: field_simps)
  then have "\<lfloor>(lim - (Pstep_bar + s)) / s\<rfloor> = \<lfloor>(lim - Pstep_bar) / s\<rfloor> - 1"
    by simp
  moreover have "0 \<le> \<lfloor>(lim - Pstep_bar) / s\<rfloor>" using s le by simp
  ultimately have "nat (\<lfloor>(lim - (Pstep_bar + s)) / s\<rfloor> + 1) < nat (\<lfloor>(lim - Pstep_bar) / s\<rfloor> + 1)"
    by simp
  then show ?case using 3 unfolding s_def lim_def by simp
qed

declare excel_loop.simps [simp del]

text \<open>The loop of the \<^verbatim>\<open>Trapezoidal\<close> case; the state is \<open>(G_int_J, Vm_prev)\<close>.\<close>

function trapezoidal_loop ::
  "thermo_model \<Rightarrow> real \<Rightarrow> real \<Rightarrow> real \<Rightarrow> int \<Rightarrow> WaterThermoModelOptions \<Rightarrow> real
     \<Rightarrow> int \<Rightarrow> real \<times> real \<Rightarrow> (real \<times> real) option" where
  "trapezoidal_loop wtm T_K P_start_Pa dP nsteps thermoWithTol M i (G_int_J, Vm_prev) =
     (if i \<le> nsteps then
        let Pstep_Pa = P_start_Pa + real_of_int i * dP;
            wt = wtm T_K Pstep_Pa thermoWithTol
        in if D wt \<le> 0 then
             trapezoidal_loop wtm T_K P_start_Pa dP nsteps thermoWithTol M (i + 1) (G_int_J, Vm_prev)
           else do {
             Vm \<leftarrow> density_quotient M (D wt);
             trapezoidal_loop wtm T_K P_start_Pa dP nsteps thermoWithTol M (i + 1)
               (G_int_J + 0.5 * (Vm_prev + Vm) * dP, Vm)
           }
      else Some (G_int_J, Vm_prev))"
  by pat_completeness auto
termination
  by (relation "measure (\<lambda>(wtm, T_K, P_start_Pa, dP, nsteps, thermoWithTol, M, i, st).
                  nat (nsteps + 1 - i))") auto

declare trapezoidal_loop.simps [simp del]

definition trapezoidal ::
  "thermo_model \<Rightarrow> real \<Rightarrow> real \<Rightarrow> real \<Rightarrow> int \<Rightarrow> WaterThermoModelOptions \<Rightarrow> real \<Rightarrow> real option" where
  "trapezoidal wtm T_K P_start_Pa P_Pa nsteps thermoWithTol M =
     (let dP = (P_Pa - P_start_Pa) / real_of_int nsteps
      in do {
           Vm_prev \<leftarrow> guardedMolarVolume M (wtm T_K P_start_Pa thermoWithTol);
           r \<leftarrow> trapezoidal_loop wtm T_K P_start_Pa dP nsteps thermoWithTol M 1 (0, Vm_prev);
           Some (fst r)
         })"

text \<open>
  The first statement of \<^verbatim>\<open>gibbsDewIntegral_J_per_mol\<close> is
  \<^verbatim>\<open>const double P_bar = P_Pa * 1.0e-5;\<close> and the next two compare \<^verbatim>\<open>P_bar\<close> with
  \<^verbatim>\<open>1000.0\<close>, once for equality. The literal \<^verbatim>\<open>1.0e-5\<close> denotes the binary64 number
  nearest to \<open>10\<^sup>-\<^sup>5\<close>, which is \<open>5902958103587057 / 2\<^sup>6\<^sup>9\<close>, and the product is rounded
  to the nearest binary64 number, ties to even: for a result in the binade
  \<open>2\<^sup>e \<le> \<bar>x\<bar> < 2\<^sup>e\<^sup>+\<^sup>1\<close> that is the nearest multiple of \<open>2\<^sup>e\<^sup>-\<^sup>5\<^sup>2\<close>. Overflow and
  subnormal results do not occur for pressures in Pa of any magnitude of interest and are
  not modelled.
\<close>

definition round_half_even :: "real \<Rightarrow> int" where
  "round_half_even x =
     (let n = \<lfloor>x\<rfloor>; r = x - of_int n
      in if r < 1 / 2 then n else if 1 / 2 < r then n + 1 else if even n then n else n + 1)"

definition double_round :: "real \<Rightarrow> real" where
  "double_round x =
     (if x = 0 then 0
      else
        let e = \<lfloor>log 2 \<bar>x\<bar>\<rfloor>;
            ulp = 2 powr (of_int e - 52)
        in of_int (round_half_even (x / ulp)) * ulp)"

definition double_1e_minus_5 :: real where
  "double_1e_minus_5 = 5902958103587057 / 2 ^ 69"

definition gibbsDewIntegral_J_per_mol ::
  "thermo_model \<Rightarrow> real \<Rightarrow> real \<Rightarrow> WaterThermoModelOptions \<Rightarrow> WaterGibbsModelOptions
     \<Rightarrow> real option" where
  "gibbsDewIntegral_J_per_mol wtm T_K P_Pa thermo_opt opt =
     (let T_C = toCelsius T_K;
          P_bar = double_round (P_Pa * double_1e_minus_5)
      in if P_bar < 1000 then Some 0
         else
           let G1k_cal = GAtOneKb_cal_per_mol T_C in
           if P_bar = 1000 then Some (G1k_cal * 4.184)
           else
             let M = 18.01528 / 10 ^ 3;
                 thermoWithTol = thermo_opt \<lparr> thermo_densityTolerance := densityTolerance opt \<rparr>
             in do {
                  G_int_J \<leftarrow>
                    (if useExcelIntegration opt then
                       excel_loop wtm T_K P_bar thermoWithTol M 1000 0
                     else
                       let P_start_Pa = 1000 * 10 ^ 5 in
                       case integrationMethod opt of
                         Trapezoidal \<Rightarrow>
                           trapezoidal wtm T_K P_start_Pa P_Pa (integrationSteps opt) thermoWithTol M
                       | Simpson \<Rightarrow>
                           simpsonRule wtm T_K P_start_Pa P_Pa (integrationSteps opt) thermoWithTol M
                       | GaussLegendre16 \<Rightarrow>
                           let nsegments = max 1 (integrationSteps opt sdiv 16)
                           in gaussLegendre16 wtm T_K P_start_Pa P_Pa nsegments thermoWithTol M
                       | AdaptiveSimpson \<Rightarrow>
                           adaptiveSimpson wtm T_K P_start_Pa P_Pa (adaptiveIntegrationTolerance opt)
                             (maxAdaptiveSubdivisions opt) thermoWithTol M);
                  Some (G1k_cal * 4.184 + G_int_J)
                })"

section \<open>Dielectric models and their selector\<close>

definition density_si_to_g_cm3 :: "real \<Rightarrow> real" where
  "density_si_to_g_cm3 rho_si = rho_si / 1000"

subsection \<open>Franck et al. 1990 (WaterDielectricFranck1990.cpp)\<close>

definition franck_pi :: real where "franck_pi = 3.14159265358979"
definition franck_omega :: real where "franck_omega = 0.0000000268"
definition franck_kB :: real where "franck_kB = 1.380648 / 10 ^ 16"
definition franck_Na :: real where "franck_Na = 6.022 * 10 ^ 23"
definition franck_mu :: real where "franck_mu = 2.33 / 10 ^ 18"

definition epsilon_franck :: "real \<Rightarrow> real \<Rightarrow> real" where
  "epsilon_franck T rho_g_cm3 =
     (let TK = T;
          rho_mol_cm3 = rho_g_cm3 * 0.055508;
          cc = franck_omega ^ 3 * franck_Na;
          rhostar = rho_mol_cm3 * cc;
          mustarsq = (franck_mu * franck_mu) / (franck_kB * TK * franck_omega ^ 3);
          y = (4 * franck_pi / 9) * rhostar * mustarsq;
          f1 = 0.4341 * rhostar ^ 2;
          f2 = - (0.05 + 0.75 * rhostar ^ 3);
          f3 = - 0.026 * rhostar ^ 2 + 0.173 * rhostar ^ 4;
          one_minus_f1y = 1 - f1 * y;
          term = 1 + (1 - f1) * y + f2 * y * y + f3 * y * y * y
      in ((3 * y) / one_minus_f1y) * term + 1)"

definition depsdrho_franck :: "real \<Rightarrow> real \<Rightarrow> real" where
  "depsdrho_franck T rho_g_cm3 =
     (let TK = T;
          density_mol_cm3 = rho_g_cm3 * 0.055508;
          cc = franck_omega ^ 3 * franck_Na;
          rhostar = density_mol_cm3 * cc;
          mustarsq = (franck_mu * franck_mu) / (franck_kB * TK * franck_omega ^ 3);
          y = (4 * franck_pi / 9) * rhostar * mustarsq;
          f1 = 0.4341 * rhostar ^ 2;
          f2 = - (0.05 + 0.75 * rhostar ^ 3);
          f3 = - 0.026 * rhostar ^ 2 + 0.173 * rhostar ^ 4;
          dydrho = (4 * franck_pi / 9) * mustarsq * cc;
          df1drho = 2 * 0.4341 * cc ^ 2 * density_mol_cm3;
          df2drho = - 3 * 0.75 * cc ^ 3 * density_mol_cm3 ^ 2;
          df3drho = - 2 * 0.026 * cc ^ 2 * density_mol_cm3
                    + 4 * 0.173 * cc ^ 4 * density_mol_cm3 ^ 3;
          eps = epsilon_franck T rho_g_cm3;
          one_minus_f1y = 1 - f1 * y;
          term1 = ((dydrho + y * y * df1drho) / one_minus_f1y) * (eps - 1) / y;
          term2 = (3 * y / one_minus_f1y) *
                  (- df1drho * y + df2drho * y * y + df3drho * y * y * y
                   + (1 - f1 + 2 * f2 * y + 3 * f3 * y * y) * dydrho)
      in 0.05508 * (term1 + term2))"

definition waterElectroPropsFranck1990 :: "real \<Rightarrow> real \<Rightarrow> WaterThermoProps \<Rightarrow> WaterElectroProps" where
  "waterElectroPropsFranck1990 T P wt =
     (let rho_si = D wt;
          rho_g_cm3 = density_si_to_g_cm3 rho_si;
          eps = epsilon_franck T rho_g_cm3;
          deps_drho_g = depsdrho_franck T rho_g_cm3;
          drho_g_dP_SI = DP wt / 1000;
          epsP = deps_drho_g * drho_g_dP_SI
      in \<lparr> epsilon = eps, epsilonT = 0, epsilonP = epsP,
           epsilonTT = 0, epsilonTP = 0, epsilonPP = 0,
           bornZ = - 1 / eps,
           bornY = 0,
           bornQ = (if eps \<noteq> 0 then epsP / (eps * eps) else 0),
           bornN = 0, bornU = 0, bornX = 0 \<rparr>)"

subsection \<open>Fernandez et al. 1997 (WaterDielectricFernandez1997.cpp)\<close>

definition fernandez_avogadro :: real where "fernandez_avogadro = 6.0221367 * 10 ^ 23"
definition fernandez_dipole :: real where "fernandez_dipole = 6.138 / 10 ^ 30"
definition fernandez_epsilon0 :: real where "fernandez_epsilon0 = 8.8541878176204 / 10 ^ 12"
definition fernandez_boltzmann :: real where "fernandez_boltzmann = 1.380658 / 10 ^ 23"
definition fernandez_alpha :: real where "fernandez_alpha = 1.636 / 10 ^ 40"
definition fernandez_density_c :: real where "fernandez_density_c = 17873.728"
definition fernandez_T_c :: real where "fernandez_T_c = 647.096"

text \<open>
  The tables \<^verbatim>\<open>N_k[0..10]\<close>, \<^verbatim>\<open>i_k\<close> and \<^verbatim>\<open>j_k\<close>, one triple per index, and
  \<^verbatim>\<open>N_k[11]\<close>. The exponents \<^verbatim>\<open>i_k\<close> are whole numbers.
\<close>

definition fernandez_terms :: "(real \<times> nat \<times> real) list" where
  "fernandez_terms =
     [(0.978224486826, 1, 0.25),
      (- 0.957771379375, 1, 1),
      (0.237511794148, 1, 2.5),
      (0.714692224396, 2, 1.5),
      (- 0.298217036956, 3, 1.5),
      (- 0.108863472196, 3, 2.5),
      (0.0949327488264, 4, 2),
      (- 0.00980469816509, 5, 2),
      (0.000016516763497, 6, 5),
      (0.0000937359795772, 7, 0.5),
      (- (1.2317921872 / 10 ^ 10), 10, 10)]"

definition fernandez_N_k_11 :: real where "fernandez_N_k_11 = 0.00196096504426"

definition fernandez_g :: "real \<Rightarrow> real \<Rightarrow> real" where
  "fernandez_g T_K density_molm3 =
     (let x = density_molm3 / fernandez_density_c;
          Tratio = fernandez_T_c / T_K;
          g = fold (\<lambda>(N, i, j) g. g + N * x ^ i * (Tratio powr j)) fernandez_terms 1
      in g + fernandez_N_k_11 * x * ((T_K / 228 - 1) powr (- 1.2)))"

definition fernandez_ABC :: "real \<Rightarrow> real \<Rightarrow> real \<Rightarrow> real \<times> real \<times> real" where
  "fernandez_ABC T_K density_molm3 g =
     (let A = (fernandez_avogadro * fernandez_dipole * fernandez_dipole * density_molm3 * g)
              / (fernandez_epsilon0 * fernandez_boltzmann * T_K);
          B = (fernandez_avogadro * fernandez_alpha * density_molm3) / (3 * fernandez_epsilon0);
          C = 9 + 2 * A + 18 * B + A * A + 10 * A * B + 9 * B * B
      in (A, B, C))"

definition epsilon_fernandez :: "real \<Rightarrow> real \<Rightarrow> real" where
  "epsilon_fernandez T rho_g_cm3 =
     (let density_molm3 = rho_g_cm3 * 0.055508 * 10 ^ 6;
          T_K = T;
          g = fernandez_g T_K density_molm3
      in case fernandez_ABC T_K density_molm3 g of
           (A, B, C) \<Rightarrow> (1 + A + 5 * B + sqrt C) / (4 - 4 * B))"

definition depsdrho_fernandez :: "real \<Rightarrow> real \<Rightarrow> real" where
  "depsdrho_fernandez T rho_g_cm3 =
     (let density_molm3 = rho_g_cm3 * 0.055508 * 10 ^ 6;
          T_K = T;
          Tratio = fernandez_T_c / T_K;
          g = fernandez_g T_K density_molm3;
          dgdrho_molm3 =
            fold (\<lambda>(N, i, j) d. d + real i * N * density_molm3 ^ (i - 1)
                                      / fernandez_density_c ^ i * (Tratio powr j))
              fernandez_terms 0
            + (fernandez_N_k_11 / fernandez_density_c) * ((T_K / 228 - 1) powr (- 1.2))
      in case fernandez_ABC T_K density_molm3 g of
           (A, B, C) \<Rightarrow>
             let eps = (1 + A + 5 * B + sqrt C) / (4 - 4 * B);
                 dAdrho_molm3 = A / density_molm3 + (A / g) * dgdrho_molm3;
                 dBdrho_molm3 = B / density_molm3;
                 dCdrho_molm3 = 2 * dAdrho_molm3 + 18 * dBdrho_molm3 + 2 * A * dAdrho_molm3
                                + 10 * (dAdrho_molm3 * B + A * dBdrho_molm3)
                                + 18 * B * dBdrho_molm3;
                 factor = 55508;
                 denom = 4 - 4 * B;
                 sqrtC = sqrt C
             in factor * (1 / denom) *
                (4 * dBdrho_molm3 * eps + dAdrho_molm3 + 5 * dBdrho_molm3
                 + 0.5 * dCdrho_molm3 / sqrtC))"

definition waterElectroPropsFernandez1997 :: "real \<Rightarrow> real \<Rightarrow> WaterThermoProps \<Rightarrow> WaterElectroProps" where
  "waterElectroPropsFernandez1997 T P wt =
     (let rho_si = D wt;
          rho_g_cm3 = density_si_to_g_cm3 rho_si;
          eps = epsilon_fernandez T rho_g_cm3;
          deps_drho_g = depsdrho_fernandez T rho_g_cm3;
          drho_g_dP = DP wt / 1000;
          epsP = deps_drho_g * drho_g_dP
      in \<lparr> epsilon = eps, epsilonT = 0, epsilonP = epsP,
           epsilonTT = 0, epsilonTP = 0, epsilonPP = 0,
           bornZ = (if eps \<noteq> 0 then - 1 / eps else 0),
           bornY = 0,
           bornQ = (if eps \<noteq> 0 then epsP / (eps * eps) else 0),
           bornN = 0, bornU = 0, bornX = 0 \<rparr>)"

subsection \<open>Power function (WaterDielectricPowerFunction.cpp)\<close>

definition power_a1 :: real where "power_a1 = - (1.57637700752506 / 10 ^ 3)"
definition power_a2 :: real where "power_a2 = 6.81028783422197 / 10 ^ 2"
definition power_a3 :: real where "power_a3 = 0.754875480393944"
definition power_b1 :: real where "power_b1 = - (8.01665106535394 / 10 ^ 5)"
definition power_b2 :: real where "power_b2 = - (6.87161761831994 / 10 ^ 2)"
definition power_b3 :: real where "power_b3 = 4.74797272182151"

definition epsilon_power :: "real \<Rightarrow> real \<Rightarrow> real" where
  "epsilon_power T_K rho_g_cm3 =
     (let T_C = T_K - 273.15;
          sqrtT = (if T_C > 0 then sqrt T_C else 0);
          A = power_a1 * T_C + power_a2 * sqrtT + power_a3;
          B = power_b1 * T_C + power_b2 * sqrtT + power_b3
      in if rho_g_cm3 \<le> 0 then 1
         else exp B * (rho_g_cm3 powr A))"

definition depsdrho_power :: "real \<Rightarrow> real \<Rightarrow> real" where
  "depsdrho_power T_K rho_g_cm3 =
     (let T_C = T_K - 273.15;
          sqrtT = (if T_C > 0 then sqrt T_C else 0);
          A = power_a1 * T_C + power_a2 * sqrtT + power_a3;
          B = power_b1 * T_C + power_b2 * sqrtT + power_b3
      in if rho_g_cm3 \<le> 0 then 0
         else A * exp B * (rho_g_cm3 powr (A - 1)))"

definition waterElectroPropsPowerFunction :: "real \<Rightarrow> real \<Rightarrow> WaterThermoProps \<Rightarrow> WaterElectroProps" where
  "waterElectroPropsPowerFunction T P wt =
     (let rho_si = D wt;
          rho_g_cm3 = density_si_to_g_cm3 rho_si;
          eps = epsilon_power T rho_g_cm3;
          deps_drho_g = depsdrho_power T rho_g_cm3;
          drho_g_dP = DP wt / 1000;
          epsP = deps_drho_g * drho_g_dP
      in \<lparr> epsilon = eps, epsilonT = 0, epsilonP = epsP,
           epsilonTT = 0, epsilonTP = 0, epsilonPP = 0,
           bornZ = (if eps \<noteq> 0 then - 1 / eps else 0),
           bornY = 0,
           bornQ = (if eps \<noteq> 0 then epsP / (eps * eps) else 0),
           bornN = 0, bornU = 0, bornX = 0 \<rparr>)"

subsection \<open>Johnson and Norton 1991\<close>

text \<open>
  Modelled from the spec: \<^verbatim>\<open>waterElectroPropsJohnsonNorton\<close>
  (WaterDielectricJohnsonNorton.hpp) is called by the selector but its source is not part of
  the repository files at hand. The specification of the ElectroState says that every
  formulation provides the relative permittivity and its pressure derivative, and that the
  Born coefficients are derived from them as \<open>Z = - 1 / \<epsilon>\<close> and
  \<open>Q = \<epsilon>\<^sub>P / \<epsilon>\<^sup>2\<close>, the others being left to the formulation. The closed-form fit
  itself is the parameter \<open>jn\<close>, which supplies every field except \<open>bornZ\<close> and
  \<open>bornQ\<close>.
\<close>

definition waterElectroPropsJohnsonNorton ::
  "(real \<Rightarrow> real \<Rightarrow> WaterThermoProps \<Rightarrow> WaterElectroProps)
     \<Rightarrow> real \<Rightarrow> real \<Rightarrow> WaterThermoProps \<Rightarrow> WaterElectroProps" where
  "waterElectroPropsJohnsonNorton jn T P wt =
     (let we = jn T P wt
      in we \<lparr> bornZ := - 1 / epsilon we,
              bornQ := epsilonP we / (epsilon we * epsilon we) \<rparr>)"

subsection \<open>The selector (WaterElectroModel.cpp)\<close>

datatype WaterDielectricModel = JohnsonNorton1991 | Franck1990 | Fernandez1997 | PowerFunction

record WaterElectroModelOptions =
  electro_model :: WaterDielectricModel
  electro_usePsatPolynomials :: bool
  electro_psatRelativeTolerance :: real

text \<open>
  \<^verbatim>\<open>isNearPsat\<close>. The \<^verbatim>\<open>std::isfinite\<close> tests of the source hold for every real number.
\<close>

definition isNearPsat :: "(real \<Rightarrow> real) \<Rightarrow> real \<Rightarrow> real \<Rightarrow> real \<Rightarrow> bool" where
  "isNearPsat psatWP T_K P_Pa relTol =
     (if relTol \<le> 0 then False
      else
        let Psat_Pa = psatWP T_K in
        if \<not> (Psat_Pa > 0) then False
        else
          let diff = \<bar>P_Pa - Psat_Pa\<bar>
          in diff \<le> relTol * Psat_Pa)"

definition maybeApplyPsatOverride ::
  "(real \<Rightarrow> real) \<Rightarrow> real \<Rightarrow> real \<Rightarrow> WaterElectroModelOptions \<Rightarrow> WaterElectroProps
     \<Rightarrow> WaterElectroProps" where
  "maybeApplyPsatOverride psatWP T P opt we =
     (if \<not> electro_usePsatPolynomials opt then we
      else if \<not> isNearPsat psatWP T P (electro_psatRelativeTolerance opt) then we
      else
        let eps_p = waterPsatEpsilonDEW T;
            Q_p = waterPsatBornQDEW T
        in if eps_p \<le> 0 then we
           else
             let eps2 = eps_p * eps_p
             in we \<lparr> epsilon := eps_p,
                     bornZ := - 1 / eps_p,
                     bornQ := Q_p,
                     epsilonP := Q_p * eps2 \<rparr>)"

definition waterElectroPropsModel ::
  "(real \<Rightarrow> real \<Rightarrow> WaterThermoProps \<Rightarrow> WaterElectroProps) \<Rightarrow> (real \<Rightarrow> real)
     \<Rightarrow> real \<Rightarrow> real \<Rightarrow> WaterThermoProps \<Rightarrow> WaterElectroModelOptions \<Rightarrow> WaterElectroProps" where
  "waterElectroPropsModel jn psatWP T P wt opt =
     (let we = (case electro_model opt of
                  JohnsonNorton1991 \<Rightarrow> waterElectroPropsJohnsonNorton jn T P wt
                | Franck1990 \<Rightarrow> waterElectroPropsFranck1990 T P wt
                | Fernandez1997 \<Rightarrow> waterElectroPropsFernandez1997 T P wt
                | PowerFunction \<Rightarrow> waterElectroPropsPowerFunction T P wt)
      in maybeApplyPsatOverride psatWP T P opt we)"

subsection \<open>The selector of WaterDielectricModel.cpp\<close>

text \<open>
  The repository has a second selector of the same name, overloaded on its options type
  \<^verbatim>\<open>WaterDielectricModelOptions\<close>; it is the one \<^verbatim>\<open>WaterStateOptions\<close> is configured with.
  The enumerators of \<^verbatim>\<open>WaterDielectricPrimaryModel\<close> and \<^verbatim>\<open>WaterDielectricPsatMode\<close>
  carry a prefix here, since the scoped enumerations of the source reuse the names of the
  first selector and \<open>None\<close>. Its \<^verbatim>\<open>isNearPsat\<close> is the test of the first selector without
  the \<^verbatim>\<open>std::isfinite\<close> conditions, hence the same function of real numbers.
\<close>

datatype WaterDielectricPrimaryModel =
  PrimaryJohnsonNorton1991 | PrimaryFranck1990 | PrimaryFernandez1997 | PrimaryPowerFunction

datatype WaterDielectricPsatMode = PsatModeNone | UsePsatWhenNear | ForcePsat

record WaterDielectricModelOptions =
  primary :: WaterDielectricPrimaryModel
  psatMode :: WaterDielectricPsatMode
  dielectric_psatRelativeTolerance :: real
  overrideQWithPsatFit :: bool

text \<open>The member initialisers of \<^verbatim>\<open>WaterDielectricModelOptions\<close>.\<close>

definition defaultWaterDielectricModelOptions :: WaterDielectricModelOptions where
  "defaultWaterDielectricModelOptions =
     \<lparr> primary = PrimaryJohnsonNorton1991,
       psatMode = PsatModeNone,
       dielectric_psatRelativeTolerance = 1 / 10 ^ 3,
       overrideQWithPsatFit = True \<rparr>"

definition applyPsatOverrides ::
  "real \<Rightarrow> WaterDielectricModelOptions \<Rightarrow> WaterElectroProps \<Rightarrow> WaterElectroProps" where
  "applyPsatOverrides T opts we =
     (let eps_psat = waterPsatEpsilonDEW T;
          we1 = we \<lparr> epsilon := eps_psat,
                     bornZ := (if eps_psat \<noteq> 0 then - 1 / eps_psat else 0) \<rparr>;
          we2 = (if overrideQWithPsatFit opts then we1 \<lparr> bornQ := waterPsatBornQDEW T \<rparr>
                 else we1)
      in we2 \<lparr> epsilonT := 0, epsilonP := 0, epsilonTT := 0, epsilonTP := 0, epsilonPP := 0,
               bornX := 0, bornN := 0, bornU := 0 \<rparr>)"

definition evaluatePrimaryModel ::
  "(real \<Rightarrow> real \<Rightarrow> WaterThermoProps \<Rightarrow> WaterElectroProps)
     \<Rightarrow> real \<Rightarrow> real \<Rightarrow> WaterThermoProps \<Rightarrow> WaterDielectricPrimaryModel \<Rightarrow> WaterElectroProps" where
  "evaluatePrimaryModel jn T P wt m =
     (case m of
        PrimaryJohnsonNorton1991 \<Rightarrow> waterElectroPropsJohnsonNorton jn T P wt
      | PrimaryFranck1990 \<Rightarrow> waterElectroPropsFranck1990 T P wt
      | PrimaryFernandez1997 \<Rightarrow> waterElectroPropsFernandez1997 T P wt
      | PrimaryPowerFunction \<Rightarrow> waterElectroPropsPowerFunction T P wt)"

definition waterElectroPropsModel_dielectric ::
  "(real \<Rightarrow> real \<Rightarrow> WaterThermoProps \<Rightarrow> WaterElectroProps) \<Rightarrow> (real \<Rightarrow> real)
     \<Rightarrow> real \<Rightarrow> real \<Rightarrow> WaterThermoProps \<Rightarrow> WaterDielectricModelOptions \<Rightarrow> WaterElectroProps" where
  "waterElectroPropsModel_dielectric jn psatWP T P wt opts =
     (let we = evaluatePrimaryModel jn T P wt (primary opts)
      in case psatMode opts of
           PsatModeNone \<Rightarrow> we
         | UsePsatWhenNear \<Rightarrow>
             if isNearPsat psatWP T P (dielectric_psatRelativeTolerance opts)
             then applyPsatOverrides T opts we else we
         | ForcePsat \<Rightarrow> applyPsatOverrides T opts we)"

section \<open>Option values and auxiliary notions used in the statements\<close>

text \<open>
  The ZhangDuan2005 case of \<^verbatim>\<open>waterThermoPropsModel\<close>, with the density tolerance taken
  from the options as \<^verbatim>\<open>gibbsDewIntegral_J_per_mol\<close> sets it, and the canonical DEW
  configuration (\<^verbatim>\<open>makeWaterModelOptionsDEW\<close>: Zhang-Duan 2005, tolerance 0.001 bar).
\<close>

definition zd05_thermo_model :: thermo_model where
  "zd05_thermo_model T P opts = waterThermoPropsZhangDuan2005 T P (thermo_densityTolerance opts)"

definition dew_thermo_options :: WaterThermoModelOptions where
  "dew_thermo_options =
     \<lparr> eosModel = ZhangDuan2005,
       thermo_usePsatPolynomials = False,
       thermo_psatRelativeTolerance = 1 / 10 ^ 3,
       zhangDuan2009Options = defaultWaterZhangDuan2009Options,
       thermo_densityTolerance = 0.001 \<rparr>"

text \<open>The member initialisers of \<^verbatim>\<open>WaterGibbsModelOptions\<close>, with the DEW integral selected.\<close>

definition dew_gibbs_options :: WaterGibbsModelOptions where
  "dew_gibbs_options =
     \<lparr> model = DewIntegral,
       thermo = dew_thermo_options,
       usePsatPolynomials = False,
       psatRelativeTolerance = 1 / 10 ^ 3,
       integrationMethod = Trapezoidal,
       integrationSteps = 5000,
       useExcelIntegration = False,
       adaptiveIntegrationTolerance = 0.1,
       maxAdaptiveSubdivisions = 20,
       densityTolerance = 0.001 \<rparr>"

text \<open>
  What the specification says of the density bisection, for a sequence of iterates, an
  acceptance test and a cap: either some iterate before the cap is the first accepted one,
  and it is returned after that many loop bodies plus one; or none of the iterates before
  the cap is accepted and the iterate produced by the last update is returned.
\<close>

definition bisection_outcome ::
  "(nat \<Rightarrow> real) \<Rightarrow> (real \<Rightarrow> bool) \<Rightarrow> nat \<Rightarrow> real \<times> int \<times> bool \<Rightarrow> bool" where
  "bisection_outcome iterate accept cap res \<longleftrightarrow>
     (\<exists>k<cap. res = (iterate k, int k + 1, True) \<and> accept (iterate k)
         \<and> (\<forall>j<k. \<not> accept (iterate j)))
     \<or> (res = (iterate cap, int cap, False) \<and> (\<forall>j<cap. \<not> accept (iterate j)))"

text \<open>The bracket invariant of both bisections.\<close>

definition bracket_ok :: "real \<Rightarrow> real \<Rightarrow> real \<times> real \<times> real \<Rightarrow> bool" where
  "bracket_ok lo hi st = (case st of (a, b, r) \<Rightarrow> lo \<le> a \<and> a \<le> r \<and> r \<le> b \<and> b \<le> hi)"

section \<open>Verification\<close>

subsection \<open>Born omega model\<close>

text \<open>
  Claim C3. For every temperature, pressure, water state, reference coefficient and charge:
  if the charge is zero, or the species is flagged hydrogen-like (pinned), or the pressure
  exceeds the configured cutoff (6000 bar by default), the Born omega function returns the
  reference coefficient itself and its pressure derivative returns zero.
\<close>

theorem born_short_circuit:
  "Z = 0 \<or> isHydrogenLike opt \<or> P > maxPressureForVariation opt \<Longrightarrow>
     waterBornOmegaDEW psatWP T P wt wref Z opt = wref \<and>
     waterBornDOmegaDP_DEW psatWP T P wt wref Z opt = 0"
  by (simp add: waterBornOmegaDEW_def waterBornDOmegaDP_DEW_def)

theorem born_short_circuit_witness:
  "((0::real) = 0 \<or> isHydrogenLike defaultWaterBornOmegaOptions
      \<or> 2 * 10 ^ 8 > maxPressureForVariation defaultWaterBornOmegaOptions) \<and>
   waterBornOmegaDEW (\<lambda>_. 0) 573.15 (2 * 10 ^ 8)
     \<lparr> D = 900, DP = 0, DT = 0, DTT = 0, DTP = 0, DPP = 0 \<rparr> (- 100000) 0
     defaultWaterBornOmegaOptions = - 100000 \<and>
   waterBornDOmegaDP_DEW (\<lambda>_. 0) 573.15 (2 * 10 ^ 8)
     \<lparr> D = 900, DP = 0, DT = 0, DTT = 0, DTP = 0, DPP = 0 \<rparr> (- 100000) 0
     defaultWaterBornOmegaOptions = 0"
  using born_short_circuit[of 0 defaultWaterBornOmegaOptions "2 * 10 ^ 8" "\<lambda>_. 0" "573.15"
      "\<lparr> D = 900, DP = 0, DT = 0, DTT = 0, DTP = 0, DPP = 0 \<rparr>" "- 100000"]
  by simp

text \<open>
  The solvent function at 355 degrees Celsius, 100 bar and a density of 0.999 g/cm3 is at
  least 0.002: the power term is at most \<open>0.001\<close> in absolute value times \<open>a\<^sub>g\<close>, and the
  correction \<open>f\<close> is below \<open>- 0.0035\<close>.
\<close>

lemma solvent_g_lower_bound:
  "waterSolventFunctionDEW (\<lambda>_. 0) 628.15 (10 ^ 7)
      \<lparr> D = 999, DP = 0, DT = 0, DTT = 0, DTP = 0, DPP = 0 \<rparr>
      defaultWaterSolventFunctionOptions \<ge> 2 / 1000"
proof -
  define b where "b = solvent_b_g 355"
  define y where "y = ((2::real) / 3) powr 4.8"
  define p where "p = ((1::real) / 1000) powr b"
  have b1: "1 \<le> b" by (simp add: b_def solvent_b_g_def)
  have y0: "0 \<le> y" by (simp add: y_def)
  have "((1::real) / 1000) powr b \<le> (1 / 1000) powr 1"
    by (rule powr_mono') (use b1 in simp_all)
  then have p1: "p \<le> 1 / 1000" by (simp add: p_def)
  have geq: "waterSolventFunctionDEW (\<lambda>_. 0) 628.15 (10 ^ 7)
      \<lparr> D = 999, DP = 0, DT = 0, DTT = 0, DTP = 0, DPP = 0 \<rparr>
      defaultWaterSolventFunctionOptions
      = solvent_a_g 355 * p - solvent_f 100 355"
    by (simp add: waterSolventFunctionDEW_def defaultWaterSolventFunctionOptions_def
        toCelsius_def rho_si_to_g_cm3_def Let_def p_def b_def)
  have feq: "solvent_f 100 355 = (y + 36.66666 * (2 / 3) ^ 16) *
           (- (1.504956 / 10 ^ 10) * 900 ^ 3 + (5.017997 / 10 ^ 14) * 900 ^ 4)"
    by (simp add: solvent_f_def Let_def y_def)
  define n :: real where "n = - (1.504956 / 10 ^ 10) * 900 ^ 3 + (5.017997 / 10 ^ 14) * 900 ^ 4"
  define c :: real where "c = 36.66666 * (2 / 3) ^ 16"
  have n: "n \<le> - 0.07" by (simp add: n_def)
  have c: "0.05 \<le> c" by (simp add: c_def power_divide)
  have "(y + c) * n \<le> 0.05 * n"
    by (rule mult_right_mono_neg) (use y0 c n in simp_all)
  also have "\<dots> \<le> 0.05 * (- 0.07)" using n by simp
  finally have f: "solvent_f 100 355 \<le> - 0.0035"
    unfolding feq n_def c_def by simp
  have a: "solvent_a_g 355 = - (8239353393 / 10000000000)" by (simp add: solvent_a_g_def)
  from f p1 show ?thesis unfolding geq a by simp
qed

text \<open>
  Claim C4 as stated fails: a negative (not zero) reference-radius denominator is not
  trapped. With charge 1 and a reference coefficient of \<open>- 694656968\<close> J/mol the
  denominator is \<open>- 1540500 / 1541\<close>, the reference radius is negative, the solvent function
  above lifts the effective radius above zero, and the function returns a positive value
  instead of the (negative) reference coefficient.
\<close>

theorem born_negative_denominator_counterexample:
  "born_denom (- 694656968) 1 < 0 \<and>
   \<not> (1 = (0::real) \<or> isHydrogenLike defaultWaterBornOmegaOptions
        \<or> 10 ^ 7 > maxPressureForVariation defaultWaterBornOmegaOptions) \<and>
   waterBornOmegaDEW (\<lambda>_. 0) 628.15 (10 ^ 7)
      \<lparr> D = 999, DP = 0, DT = 0, DTT = 0, DTP = 0, DPP = 0 \<rparr>
      (- 694656968) 1 defaultWaterBornOmegaOptions \<noteq> - 694656968"
proof -
  define wt where "wt = \<lparr> D = 999, DP = 0, DT = 0, DTT = 0, DTP = 0, DPP = (0::real) \<rparr>"
  define opt where "opt = defaultWaterBornOmegaOptions"
  define g where "g = compute_g (\<lambda>_. 0) 628.15 (10 ^ 7) wt opt"
  define re where "re = born_re_A (\<lambda>_. 0) 628.15 (10 ^ 7) wt (- 694656968) 1 opt"
  have opt: "\<not> isHydrogenLike opt" "maxPressureForVariation opt = 600000000"
    by (simp_all add: opt_def defaultWaterBornOmegaOptions_def)
  have g: "2 / 1000 \<le> g"
    using solvent_g_lower_bound
    by (simp add: g_def wt_def opt_def compute_g_def defaultWaterBornOmegaOptions_def)
  have d: "born_denom (- 694656968) 1 = - (1540500 / 1541)"
    by (simp add: born_denom_def eta_cal_per_A_def)
  have re_eq: "re = g - 1541 / 1540500"
    by (simp add: re_def born_re_A_def d g_def)
  have re_pos: "0 < re" using g by (simp add: re_eq)
  have re_lt: "re < 3.082 + g" by (simp add: re_eq)
  have "1 / (3.082 + g) < 1 / re"
    using re_pos re_lt by (simp add: frac_less2)
  then have pos: "0 < eta_cal_per_A * (1 * 1 / re - 1 / (3.082 + g)) * 4.184"
    by (simp add: eta_cal_per_A_def)
  have eq: "waterBornOmegaDEW (\<lambda>_. 0) 628.15 (10 ^ 7) wt (- 694656968) 1 opt
        = eta_cal_per_A * (1 * 1 / re - 1 / (3.082 + g)) * 4.184"
    unfolding waterBornOmegaDEW_def Let_def re_def[symmetric] g_def[symmetric]
    using re_pos opt by (simp add: d)
  have "waterBornOmegaDEW (\<lambda>_. 0) 628.15 (10 ^ 7) wt (- 694656968) 1 opt > 0"
    unfolding eq by (rule pos)
  then show ?thesis
    using opt by (simp add: d wt_def opt_def)
qed

text \<open>
  Claim C4, amended. For every input where the reference-radius denominator
  \<open>\<omega>\<^sub>r\<^sub>e\<^sub>f / \<eta> + Z / 3.082\<close> is equal to zero, or the effective radius
  \<open>r\<^sub>e\<^sub>f\<^sub>f = r\<^sub>r\<^sub>e\<^sub>f + |Z| g\<close> is less than or equal to zero, the Born omega function
  returns the reference coefficient and its pressure derivative returns zero.
\<close>

theorem born_degenerate_guard:
  "born_denom wref Z = 0 \<or> born_re_A psatWP T P wt wref Z opt \<le> 0 \<Longrightarrow>
     waterBornOmegaDEW psatWP T P wt wref Z opt = wref \<and>
     waterBornDOmegaDP_DEW psatWP T P wt wref Z opt = 0"
  by (auto simp add: waterBornOmegaDEW_def waterBornDOmegaDP_DEW_def Let_def)

theorem born_degenerate_guard_witness:
  "(born_denom 125520 (- 1) = 0
      \<or> born_re_A (\<lambda>_. 0) 573.15 (2 * 10 ^ 8)
           \<lparr> D = 1000, DP = 0, DT = 0, DTT = 0, DTP = 0, DPP = 0 \<rparr> 125520 (- 1)
           defaultWaterBornOmegaOptions \<le> 0) \<and>
   waterBornOmegaDEW (\<lambda>_. 0) 573.15 (2 * 10 ^ 8)
     \<lparr> D = 1000, DP = 0, DT = 0, DTT = 0, DTP = 0, DPP = 0 \<rparr> 125520 (- 1)
     defaultWaterBornOmegaOptions = 125520 \<and>
   waterBornDOmegaDP_DEW (\<lambda>_. 0) 573.15 (2 * 10 ^ 8)
     \<lparr> D = 1000, DP = 0, DT = 0, DTT = 0, DTP = 0, DPP = 0 \<rparr> 125520 (- 1)
     defaultWaterBornOmegaOptions = 0"
proof -
  have re: "born_re_A (\<lambda>_. 0) 573.15 (2 * 10 ^ 8)
           \<lparr> D = 1000, DP = 0, DT = 0, DTT = 0, DTP = 0, DPP = 0 \<rparr> 125520 (- 1)
           defaultWaterBornOmegaOptions \<le> 0"
    by (simp add: born_re_A_def born_denom_def eta_cal_per_A_def compute_g_def
        waterSolventFunctionDEW_def defaultWaterBornOmegaOptions_def
        defaultWaterSolventFunctionOptions_def rho_si_to_g_cm3_def Let_def)
  from born_degenerate_guard[OF disjI2, OF re] re show ?thesis by simp
qed

subsection \<open>Solvent function\<close>

text \<open>
  Claim C7. In the general branch of the solvent function (the along-saturation option is
  off, which is its default), for every temperature, pressure and water state whose density
  is at least 1 g/cm3, the Born-g function returns exactly zero and so does its pressure
  derivative.
\<close>

theorem solvent_g_zero_at_high_density:
  "\<not> Psat opt \<Longrightarrow> rho_si_to_g_cm3 (D wt) \<ge> 1 \<Longrightarrow>
     waterSolventFunctionDEW psatWP T P wt opt = 0 \<and>
     waterSolventFunctionDgdP_DEW T P wt g opt = 0"
  by (simp add: waterSolventFunctionDEW_def waterSolventFunctionDgdP_DEW_def Let_def)

theorem solvent_g_zero_at_high_density_witness:
  "\<not> Psat defaultWaterSolventFunctionOptions \<and>
   rho_si_to_g_cm3 (D \<lparr> D = 1100, DP = 1 / 10 ^ 7, DT = 0, DTT = 0, DTP = 0, DPP = 0 \<rparr>) \<ge> 1 \<and>
   waterSolventFunctionDEW (\<lambda>_. 0) 573.15 (2 * 10 ^ 9)
     \<lparr> D = 1100, DP = 1 / 10 ^ 7, DT = 0, DTT = 0, DTP = 0, DPP = 0 \<rparr>
     defaultWaterSolventFunctionOptions = 0 \<and>
   waterSolventFunctionDgdP_DEW 573.15 (2 * 10 ^ 9)
     \<lparr> D = 1100, DP = 1 / 10 ^ 7, DT = 0, DTT = 0, DTP = 0, DPP = 0 \<rparr> 0
     defaultWaterSolventFunctionOptions = 0"
proof -
  have a: "\<not> Psat defaultWaterSolventFunctionOptions"
    by (simp add: defaultWaterSolventFunctionOptions_def)
  have b: "rho_si_to_g_cm3 (D \<lparr> D = 1100, DP = 1 / 10 ^ 7, DT = 0, DTT = 0, DTP = 0, DPP = 0 \<rparr>) \<ge> 1"
    by (simp add: rho_si_to_g_cm3_def)
  from solvent_g_zero_at_high_density[OF a b] a b show ?thesis by blast
qed

subsection \<open>Density bisection\<close>

lemma zd05_bracket_cases:
  obtains a b r where "zd05_bracket Pt T k = (a, b, r)" "zd05_iterate Pt T k = r"
  by (cases "zd05_bracket Pt T k") (auto simp: zd05_iterate_def)

text \<open>
  Started from the \<open>k\<close>-th bracket with counter \<open>k\<close>, none of the earlier iterates having
  been accepted, the loop ends as the specification says. Induction on the number of
  iterations left.
\<close>

lemma zd05_loop_from:
  assumes "k \<le> 50" "\<forall>j<k. \<not> zd05_accept Pt T tol (zd05_iterate Pt T j)"
  shows "bisection_outcome (zd05_iterate Pt T) (zd05_accept Pt T tol) 50
           (zd05_loop Pt T tol (int k) (zd05_bracket Pt T k))"
  using assms
proof (induction "50 - k" arbitrary: k)
  case 0
  then have k: "k = 50" by simp
  obtain a b r where br: "zd05_bracket Pt T 50 = (a, b, r)" "zd05_iterate Pt T 50 = r"
    by (rule zd05_bracket_cases)
  show ?case using "0.prems" unfolding k br(1)
    by (simp add: bisection_outcome_def br(2) zd05_loop.simps)
next
  case (Suc n)
  then have k: "k < 50" by simp
  obtain a b r where br: "zd05_bracket Pt T k = (a, b, r)" "zd05_iterate Pt T k = r"
    by (rule zd05_bracket_cases)
  show ?case
  proof (cases "zd05_accept Pt T tol r")
    case True
    have "zd05_loop Pt T tol (int k) (zd05_bracket Pt T k) = (zd05_iterate Pt T k, int k + 1, True)"
      unfolding br(1) using k True by (simp add: br(2) zd05_loop.simps)
    then show ?thesis
      unfolding bisection_outcome_def using k True Suc.prems(2) br(2) by auto
  next
    case False
    have step: "zd05_loop Pt T tol (int k) (zd05_bracket Pt T k)
                = zd05_loop Pt T tol (int (Suc k)) (zd05_bracket Pt T (Suc k))"
      unfolding br(1) zd05_bracket.simps(2) using k False
      by (subst zd05_loop.simps) (simp add: br(1) add.commute)
    have "\<forall>j<Suc k. \<not> zd05_accept Pt T tol (zd05_iterate Pt T j)"
      using Suc.prems(2) False br(2) by (auto simp: less_Suc_eq)
    moreover have "n = 50 - Suc k" "Suc k \<le> 50" using Suc.hyps(2) k by auto
    ultimately show ?thesis unfolding step using Suc.hyps(1) by blast
  qed
qed

lemma zd05_bisect_outcome:
  "bisection_outcome (zd05_iterate Pt T) (zd05_accept Pt T tol) 50 (zd05_bisect Pt T tol)"
  using zd05_loop_from[of 0 Pt T tol] by (simp add: zd05_bisect_def)

lemma zd09_bracket_cases:
  obtains a b r where "zd09_bracket Pb T k = (a, b, r)" "zd09_iterate Pb T k = r"
  by (cases "zd09_bracket Pb T k") (auto simp: zd09_iterate_def)

lemma zd09_loop_from:
  assumes "int k \<le> maxIterations opts"
    "\<forall>j<k. \<not> zd09_accept Pb T (pressureToleranceBar opts) (zd09_iterate Pb T j)"
  shows "bisection_outcome (zd09_iterate Pb T) (zd09_accept Pb T (pressureToleranceBar opts))
           (nat (maxIterations opts)) (zd09_loop Pb T opts (int k) (zd09_bracket Pb T k))"
  using assms
proof (induction "nat (maxIterations opts) - k" arbitrary: k)
  case 0
  then have k: "int k = maxIterations opts" "nat (maxIterations opts) = k" by auto
  obtain a b r where br: "zd09_bracket Pb T k = (a, b, r)" "zd09_iterate Pb T k = r"
    by (rule zd09_bracket_cases)
  show ?case using "0.prems" unfolding br(1) k(2)
    by (simp add: bisection_outcome_def br(2) k(1) zd09_loop.simps)
next
  case (Suc n)
  then have k: "int k < maxIterations opts" "k < nat (maxIterations opts)" by auto
  obtain a b r where br: "zd09_bracket Pb T k = (a, b, r)" "zd09_iterate Pb T k = r"
    by (rule zd09_bracket_cases)
  show ?case
  proof (cases "zd09_accept Pb T (pressureToleranceBar opts) r")
    case True
    have "zd09_loop Pb T opts (int k) (zd09_bracket Pb T k) = (zd09_iterate Pb T k, int k + 1, True)"
      unfolding br(1) using k True by (simp add: br(2) zd09_loop.simps)
    then show ?thesis
      unfolding bisection_outcome_def using k True Suc.prems(2) br(2) by auto
  next
    case False
    have step: "zd09_loop Pb T opts (int k) (zd09_bracket Pb T k)
                = zd09_loop Pb T opts (int (Suc k)) (zd09_bracket Pb T (Suc k))"
      unfolding br(1) zd09_bracket.simps(2) using k False
      by (subst zd09_loop.simps) (simp add: br(1) add.commute)
    have "\<forall>j<Suc k. \<not> zd09_accept Pb T (pressureToleranceBar opts) (zd09_iterate Pb T j)"
      using Suc.prems(2) False br(2) by (auto simp: less_Suc_eq)
    moreover have "n = nat (maxIterations opts) - Suc k" "int (Suc k) \<le> maxIterations opts"
      using Suc.hyps(2) k by auto
    ultimately show ?thesis unfolding step using Suc.hyps(1) by blast
  qed
qed

lemma zd09_bisect_outcome:
  "0 \<le> maxIterations opts \<Longrightarrow>
   bisection_outcome (zd09_iterate Pb T) (zd09_accept Pb T (pressureToleranceBar opts))
     (nat (maxIterations opts)) (zd09_bisect Pb T opts)"
  using zd09_loop_from[of 0 opts Pb T] by (simp add: zd09_bisect_def)

lemma bisection_outcome_count:
  "bisection_outcome it acc cap res \<Longrightarrow> fst (snd res) \<le> int cap"
  by (auto simp: bisection_outcome_def)

text \<open>
  To evaluate the Zhang-Duan 2005 bisection at concrete pressures, the exponential of the
  pressure formula is bounded between 0 and 1 (its argument is never positive); what remains
  is rational arithmetic.
\<close>

lemma zd05_pressure_bar_split:
  obtains e where "0 < e" "e \<le> 1"
    "zd05_pressure_bar rho_g_cm3 T_C =
     (let T_K = T_C + 273.15;
          Vr = M_H2O / (rho_g_cm3 * ZD05_Vc);
          Tr = T_K / ZD05_Tc;
          B = 0.349824207 - 2.91046273 / (Tr * Tr) + 2.00914688 / (Tr * Tr * Tr);
          C = 0.112819964 + 0.748997714 / (Tr * Tr) - 0.87320704 / (Tr * Tr * Tr);
          D' = 0.0170609505 - 0.0146355822 / (Tr * Tr) + 0.0579768283 / (Tr * Tr * Tr);
          E = - 0.000841246372 + 0.00495186474 / (Tr * Tr) - 0.00916248538 / (Tr * Tr * Tr);
          f = - 0.100358152 / Tr;
          g = - 0.00182674744 * Tr;
          delta = 1 + B / Vr + C / (Vr * Vr) + D' / Vr ^ 4 + E / Vr ^ 5
                  + (f / (Vr * Vr) + g / Vr ^ 4) * e
      in ZD05_R * T_K * rho_g_cm3 * delta / M_H2O)"
proof -
  define x where "x = (M_H2O / (rho_g_cm3 * ZD05_Vc)) * (M_H2O / (rho_g_cm3 * ZD05_Vc))"
  have "0 \<le> x" by (simp add: x_def)
  then have "- 0.0105999998 / x \<le> 0" by (simp add: divide_nonpos_nonneg)
  then have le: "exp (- 0.0105999998 / x) \<le> 1" by simp
  have pos: "0 < exp (- 0.0105999998 / x)" by simp
  show ?thesis
    by (rule that[OF pos le]) (simp add: zd05_pressure_bar_def Let_def x_def)
qed

lemmas zd05_consts = M_H2O_def ZD05_R_def ZD05_Vc_def ZD05_Tc_def

lemma zd05_pressure_650_a: "zd05_pressure_bar (1 / 10 ^ 5) 650 < 999"
proof (rule zd05_pressure_bar_split[of "1 / 10 ^ 5" "650"], goal_cases)
  case (1 e)
  show ?case unfolding "1"(3) using "1"(1,2)
    by (simp add: Let_def zd05_consts power_divide)
qed

lemma zd05_pressure_650_b: "15001 < zd05_pressure_bar 1.250005 650"
proof (rule zd05_pressure_bar_split[of "1.250005" "650"], goal_cases)
  case (1 e)
  show ?case unfolding "1"(3) using "1"(1,2)
    by (simp add: Let_def zd05_consts power_divide)
qed

lemma zd05_pressure_650_c:
  "1001 < zd05_pressure_bar 0.6250075 650 \<and> zd05_pressure_bar 0.6250075 650 < 7999"
proof (rule zd05_pressure_bar_split[of "0.6250075" "650"], goal_cases)
  case (1 e)
  show ?case unfolding "1"(3) using "1"(1,2)
    by (simp add: Let_def zd05_consts power_divide)
qed

lemma zd05_pressure_650_d: "1000 < zd05_pressure_bar 0.468758125 650"
proof (rule zd05_pressure_bar_split[of "0.468758125" "650"], goal_cases)
  case (1 e)
  show ?case unfolding "1"(3) using "1"(1,2)
    by (simp add: Let_def zd05_consts power_divide)
qed

lemma zd05_pressure_650_e: "zd05_pressure_bar 0.781256875 650 \<le> 8000"
proof (rule zd05_pressure_bar_split[of "0.781256875" "650"], goal_cases)
  case (1 e)
  show ?case unfolding "1"(3) using "1"(1,2)
    by (simp add: Let_def zd05_consts power_divide)
qed

text \<open>
  The same for the pressure of Zhang and Duan 2009, whose exponential is also evaluated at a
  non-positive argument.
\<close>

lemma calculatePressure_ZD09_split:
  obtains e where "0 < e" "e \<le> 1"
    "calculatePressure_ZD09 rho_g_cm3 T_C =
     (let m = H2O_M;
          TK = T_C + 273.15;
          Vm = 0.0021050125 * (m / rho_g_cm3);
          Tm = 0.3019607843 * TK;
          B = 0.029517729893 - 6337.56452413 / (Tm * Tm) - 275265.428882 / (Tm * Tm * Tm);
          C = 0.00129128089283 - 145.797416153 / (Tm * Tm) + 76593.8947237 / (Tm * Tm * Tm);
          D' = 2.58661493537 / 10 ^ 6 + 0.52126532146 / (Tm * Tm) - 139.839523753 / (Tm * Tm * Tm);
          E = - (2.36335007175 / 10 ^ 8) + 0.00535026383543 / (Tm * Tm)
              - 0.27110649951 / (Tm * Tm * Tm);
          f = 25038.7836486 / (Tm * Tm * Tm);
          Vm2 = Vm * Vm;
          Vm4 = Vm2 * Vm2;
          Vm5 = Vm4 * Vm;
          delta = 1 + B / Vm + C / Vm2 + D' / Vm4 + E / Vm5
                  + f / Vm2 * (0.73226726041 + 0.015483335997 / Vm2) * e
      in ZD09_R * Tm * delta / Vm * ZD09_c1)"
proof -
  define x where "x = (0.0021050125 * (H2O_M / rho_g_cm3)) * (0.0021050125 * (H2O_M / rho_g_cm3))"
  have "0 \<le> x" by (simp add: x_def)
  then have "- 0.015483335997 / x \<le> 0" by (simp add: divide_nonpos_nonneg)
  then have le: "exp (- 0.015483335997 / x) \<le> 1" by simp
  have pos: "0 < exp (- 0.015483335997 / x)" by simp
  show ?thesis
    by (rule that[OF pos le]) (simp add: calculatePressure_ZD09_def Let_def x_def)
qed

lemmas zd09_consts = H2O_M_def ZD09_R_def ZD09_c1_def

lemma zd09_pressure_650_a: "calculatePressure_ZD09 (1 / 10 ^ 5) 650 < 1"
proof (rule calculatePressure_ZD09_split[of "1 / 10 ^ 5" "650"], goal_cases)
  case (1 e)
  show ?case unfolding "1"(3) using "1"(1,2) by (simp add: Let_def zd09_consts power_divide)
qed

lemma zd09_pressure_650_b: "18001 < calculatePressure_ZD09 5.000005 650"
proof (rule calculatePressure_ZD09_split[of "5.000005" "650"], goal_cases)
  case (1 e)
  show ?case unfolding "1"(3) using "1"(1,2) by (simp add: Let_def zd09_consts power_divide)
qed

lemma zd09_pressure_650_c: "18001 < calculatePressure_ZD09 2.5000075 650"
proof (rule calculatePressure_ZD09_split[of "2.5000075" "650"], goal_cases)
  case (1 e)
  show ?case unfolding "1"(3) using "1"(1,2) by (simp add: Let_def zd09_consts power_divide)
qed

lemma zd09_pressure_650_d: "18001 < calculatePressure_ZD09 1.25000875 650"
proof (rule calculatePressure_ZD09_split[of "1.25000875" "650"], goal_cases)
  case (1 e)
  show ?case unfolding "1"(3) using "1"(1,2) by (simp add: Let_def zd09_consts power_divide)
qed

lemma zd09_pressure_650_e:
  "2001 < calculatePressure_ZD09 0.625009375 650 \<and> calculatePressure_ZD09 0.625009375 650 < 17999"
proof (rule calculatePressure_ZD09_split[of "0.625009375" "650"], goal_cases)
  case (1 e)
  show ?case unfolding "1"(3) using "1"(1,2) by (simp add: Let_def zd09_consts power_divide)
qed

text \<open>
  Reading off the result from the specification of the outcome, and the first brackets of
  two concrete runs at 650 degrees Celsius.
\<close>

lemma bisection_outcome_first:
  assumes "bisection_outcome it acc cap res" "k < cap" "acc (it k)" "\<forall>j<k. \<not> acc (it j)"
  shows "res = (it k, int k + 1, True)"
proof -
  from assms(1) consider
    (a) k' where "k' < cap" "res = (it k', int k' + 1, True)" "acc (it k')" "\<forall>j<k'. \<not> acc (it j)"
    | (b) "\<forall>j<cap. \<not> acc (it j)"
    unfolding bisection_outcome_def by blast
  then show ?thesis
  proof cases
    case a
    have "k' = k"
    proof (rule ccontr)
      assume "k' \<noteq> k"
      then have "k' < k \<or> k < k'" by auto
      then show False using a(3,4) assms(3,4) by blast
    qed
    with a show ?thesis by simp
  next
    case b
    with assms(2,3) show ?thesis by blast
  qed
qed

lemma bisection_outcome_none:
  assumes "bisection_outcome it acc cap res" "\<forall>j<cap. \<not> acc (it j)"
  shows "res = (it cap, int cap, False)"
  using assms unfolding bisection_outcome_def by blast

lemma zd05_bracket_650_8000:
  "zd05_bracket 8000 650 0 = (1 / 10 ^ 5, 2.5, 1 / 10 ^ 5)"
  "zd05_bracket 8000 650 (Suc 0) = (1 / 10 ^ 5, 2.5, 1.250005)"
  "zd05_bracket 8000 650 (Suc (Suc 0)) = (1 / 10 ^ 5, 1.250005, 0.6250075)"
proof -
  show b0: "zd05_bracket 8000 650 0 = (1 / 10 ^ 5, 2.5, 1 / 10 ^ 5)"
    by (simp add: zd05_init_def)
  show b1: "zd05_bracket 8000 650 (Suc 0) = (1 / 10 ^ 5, 2.5, 1.250005)"
    unfolding zd05_bracket.simps(2) b0 using zd05_pressure_650_a by (simp add: Let_def)
  show "zd05_bracket 8000 650 (Suc (Suc 0)) = (1 / 10 ^ 5, 1.250005, 0.6250075)"
    unfolding zd05_bracket.simps(2)[of _ _ "Suc 0"] b1 using zd05_pressure_650_b by (simp add: Let_def)
qed

lemma zd09_bracket_650_10000:
  "zd09_bracket 10000 650 0 = (1 / 10 ^ 5, 10, 1 / 10 ^ 5)"
  "zd09_bracket 10000 650 (Suc 0) = (1 / 10 ^ 5, 10, 5.000005)"
  "zd09_bracket 10000 650 (Suc (Suc 0)) = (1 / 10 ^ 5, 5.000005, 2.5000075)"
  "zd09_bracket 10000 650 (Suc (Suc (Suc 0))) = (1 / 10 ^ 5, 2.5000075, 1.25000875)"
  "zd09_bracket 10000 650 (Suc (Suc (Suc (Suc 0)))) = (1 / 10 ^ 5, 1.25000875, 0.625009375)"
proof -
  show b0: "zd09_bracket 10000 650 0 = (1 / 10 ^ 5, 10, 1 / 10 ^ 5)"
    by (simp add: zd09_init_def)
  show b1: "zd09_bracket 10000 650 (Suc 0) = (1 / 10 ^ 5, 10, 5.000005)"
    unfolding zd09_bracket.simps(2) b0 using zd09_pressure_650_a by (simp add: Let_def)
  show b2: "zd09_bracket 10000 650 (Suc (Suc 0)) = (1 / 10 ^ 5, 5.000005, 2.5000075)"
    unfolding zd09_bracket.simps(2)[of _ _ "Suc 0"] b1 using zd09_pressure_650_b by (simp add: Let_def)
  show b3: "zd09_bracket 10000 650 (Suc (Suc (Suc 0))) = (1 / 10 ^ 5, 2.5000075, 1.25000875)"
    unfolding zd09_bracket.simps(2)[of _ _ "Suc (Suc 0)"] b2 using zd09_pressure_650_c by (simp add: Let_def)
  show "zd09_bracket 10000 650 (Suc (Suc (Suc (Suc 0)))) = (1 / 10 ^ 5, 1.25000875, 0.625009375)"
    unfolding zd09_bracket.simps(2)[of _ _ "Suc (Suc (Suc 0))"] b3 using zd09_pressure_650_d by (simp add: Let_def)
qed

text \<open>
  Claim C5. For every temperature, target pressure and tolerance, the density bisection of
  either equation of state (the 2009 variant with its default cap of 50 iterations) always
  returns a value and runs at most 50 loop bodies. It returns the first iterate \<open>\<rho>\<close> with
  \<open>\<bar>P(\<rho>) - P_target\<bar> \<le> tolerance\<close>, as soon as one is found; otherwise no iterate before the
  cap is within the tolerance and it returns the iterate left by the 50th update. In
  particular a density returned from inside the loop has its pressure within the tolerance
  of the target.
\<close>

theorem eos_bisection_capped:
  "bisection_outcome (zd05_iterate Pt T) (\<lambda>rho. \<bar>zd05_pressure_bar rho T - Pt\<bar> \<le> tol) 50
      (zd05_bisect Pt T tol)
   \<and> fst (snd (zd05_bisect Pt T tol)) \<le> 50
   \<and> zd05_density_g_cm3 Pt T tol = fst (zd05_bisect Pt T tol)
   \<and> (snd (snd (zd05_bisect Pt T tol)) \<longrightarrow>
        \<bar>zd05_pressure_bar (zd05_density_g_cm3 Pt T tol) T - Pt\<bar> \<le> tol)
   \<and> bisection_outcome (zd09_iterate Pt T) (\<lambda>rho. \<bar>calculatePressure_ZD09 rho T - Pt\<bar> \<le> tol) 50
        (zd09_bisect Pt T \<lparr> usePsat = False, pressureToleranceBar = tol, maxIterations = 50 \<rparr>)
   \<and> fst (snd (zd09_bisect Pt T
                  \<lparr> usePsat = False, pressureToleranceBar = tol, maxIterations = 50 \<rparr>)) \<le> 50
   \<and> calculateDensity_ZD09 Pt T \<lparr> usePsat = False, pressureToleranceBar = tol, maxIterations = 50 \<rparr>
        = fst (zd09_bisect Pt T \<lparr> usePsat = False, pressureToleranceBar = tol, maxIterations = 50 \<rparr>)
   \<and> (snd (snd (zd09_bisect Pt T
                   \<lparr> usePsat = False, pressureToleranceBar = tol, maxIterations = 50 \<rparr>)) \<longrightarrow>
        \<bar>calculatePressure_ZD09
            (calculateDensity_ZD09 Pt T
               \<lparr> usePsat = False, pressureToleranceBar = tol, maxIterations = 50 \<rparr>) T - Pt\<bar> \<le> tol)"
proof -
  let ?o = "\<lparr> usePsat = False, pressureToleranceBar = tol, maxIterations = 50 \<rparr>"
  have acc5: "zd05_accept Pt T tol = (\<lambda>rho. \<bar>zd05_pressure_bar rho T - Pt\<bar> \<le> tol)"
    by (rule ext) (simp add: zd05_accept_def)
  have acc9: "zd09_accept Pt T tol = (\<lambda>rho. \<bar>calculatePressure_ZD09 rho T - Pt\<bar> \<le> tol)"
    by (rule ext) (simp add: zd09_accept_def)
  have a: "bisection_outcome (zd05_iterate Pt T) (\<lambda>rho. \<bar>zd05_pressure_bar rho T - Pt\<bar> \<le> tol) 50
             (zd05_bisect Pt T tol)"
    using zd05_bisect_outcome[of Pt T tol] unfolding acc5 .
  have b: "bisection_outcome (zd09_iterate Pt T) (\<lambda>rho. \<bar>calculatePressure_ZD09 rho T - Pt\<bar> \<le> tol) 50
             (zd09_bisect Pt T ?o)"
    using zd09_bisect_outcome[of ?o Pt T] unfolding acc9[symmetric] by simp
  have a': "snd (snd (zd05_bisect Pt T tol)) \<longrightarrow>
              \<bar>zd05_pressure_bar (fst (zd05_bisect Pt T tol)) T - Pt\<bar> \<le> tol"
    using a by (auto simp: bisection_outcome_def)
  have b': "snd (snd (zd09_bisect Pt T ?o)) \<longrightarrow>
              \<bar>calculatePressure_ZD09 (fst (zd09_bisect Pt T ?o)) T - Pt\<bar> \<le> tol"
    using b by (auto simp: bisection_outcome_def)
  show ?thesis
    using a b a' b' bisection_outcome_count[OF a] bisection_outcome_count[OF b]
    by (simp add: zd05_density_g_cm3_def calculateDensity_ZD09_def)
qed

text \<open>
  Witness: at 650 degrees Celsius, the 2005 bisection for the target 8000 bar with tolerance
  7000 bar rejects its first two iterates and returns the third, after three loop bodies;
  the 2009 bisection for the target 10000 bar with tolerance 8000 bar rejects four iterates
  and returns the fifth. Both returned densities have their pressure within the tolerance.
\<close>

theorem eos_bisection_capped_witness:
  "zd05_bisect 8000 650 7000 = (0.6250075, 3, True)
   \<and> zd05_density_g_cm3 8000 650 7000 = 0.6250075
   \<and> \<bar>zd05_pressure_bar 0.6250075 650 - 8000\<bar> \<le> 7000
   \<and> \<not> \<bar>zd05_pressure_bar (1 / 10 ^ 5) 650 - 8000\<bar> \<le> 7000
   \<and> \<not> \<bar>zd05_pressure_bar 1.250005 650 - 8000\<bar> \<le> 7000
   \<and> zd09_bisect 10000 650 \<lparr> usePsat = False, pressureToleranceBar = 8000, maxIterations = 50 \<rparr>
        = (0.625009375, 5, True)
   \<and> calculateDensity_ZD09 10000 650
        \<lparr> usePsat = False, pressureToleranceBar = 8000, maxIterations = 50 \<rparr> = 0.625009375
   \<and> \<bar>calculatePressure_ZD09 0.625009375 650 - 10000\<bar> \<le> 8000"
proof -
  note t5 = eos_bisection_capped[of 8000 650 7000]
  note t9 = eos_bisection_capped[of 10000 650 8000]
  let ?o = "\<lparr> usePsat = False, pressureToleranceBar = 8000, maxIterations = 50 \<rparr>"
  let ?acc5 = "\<lambda>rho. \<bar>zd05_pressure_bar rho 650 - 8000\<bar> \<le> 7000"
  let ?acc9 = "\<lambda>rho. \<bar>calculatePressure_ZD09 rho 650 - 10000\<bar> \<le> 8000"
  have it5: "zd05_iterate 8000 650 0 = 1 / 10 ^ 5" "zd05_iterate 8000 650 (Suc 0) = 1.250005"
    "zd05_iterate 8000 650 (Suc (Suc 0)) = 0.6250075"
    unfolding zd05_iterate_def zd05_bracket_650_8000 by (rule snd_conv[THEN arg_cong[of _ _ snd, THEN trans], OF snd_conv])+
  have n0: "\<not> ?acc5 (1 / 10 ^ 5)"
    using zd05_pressure_650_a by simp
  have n1: "\<not> ?acc5 1.250005"
    using zd05_pressure_650_b by simp
  have a2: "?acc5 0.6250075"
    using zd05_pressure_650_c by (simp add: abs_le_iff)
  have none5: "\<forall>j<Suc (Suc 0). \<not> ?acc5 (zd05_iterate 8000 650 j)"
  proof (intro allI impI)
    fix j :: nat assume "j < Suc (Suc 0)"
    then consider "j = 0" | "j = Suc 0" by (auto simp: less_Suc_eq)
    then show "\<not> ?acc5 (zd05_iterate 8000 650 j)"
    proof cases
      case 1 show ?thesis unfolding 1 it5(1) by (rule n0)
    next
      case 2 show ?thesis unfolding 2 it5(2) by (rule n1)
    qed
  qed
  have a2': "?acc5 (zd05_iterate 8000 650 (Suc (Suc 0)))"
    unfolding it5(3) by (rule a2)
  have o5: "bisection_outcome (zd05_iterate 8000 650) ?acc5 50 (zd05_bisect 8000 650 7000)"
    using t5 by blast
  have "zd05_bisect 8000 650 7000 = (zd05_iterate 8000 650 (Suc (Suc 0)), int (Suc (Suc 0)) + 1, True)"
    by (rule bisection_outcome_first[OF o5 _ a2' none5]) simp
  then have r5: "zd05_bisect 8000 650 7000 = (0.6250075, 3, True)"
    unfolding it5(3) by simp
  have d5: "zd05_density_g_cm3 8000 650 7000 = 0.6250075"
    using t5 unfolding r5 by simp
  have it9: "zd09_iterate 10000 650 0 = 1 / 10 ^ 5" "zd09_iterate 10000 650 (Suc 0) = 5.000005"
    "zd09_iterate 10000 650 (Suc (Suc 0)) = 2.5000075"
    "zd09_iterate 10000 650 (Suc (Suc (Suc 0))) = 1.25000875"
    "zd09_iterate 10000 650 (Suc (Suc (Suc (Suc 0)))) = 0.625009375"
    unfolding zd09_iterate_def zd09_bracket_650_10000 by (rule snd_conv[THEN arg_cong[of _ _ snd, THEN trans], OF snd_conv])+
  have m0: "\<not> ?acc9 (1 / 10 ^ 5)" using zd09_pressure_650_a by simp
  have m1: "\<not> ?acc9 5.000005" using zd09_pressure_650_b by simp
  have m2: "\<not> ?acc9 2.5000075" using zd09_pressure_650_c by simp
  have m3: "\<not> ?acc9 1.25000875" using zd09_pressure_650_d by simp
  have a9: "?acc9 0.625009375"
    using zd09_pressure_650_e by (simp add: abs_le_iff)
  have none9: "\<forall>j<Suc (Suc (Suc (Suc 0))). \<not> ?acc9 (zd09_iterate 10000 650 j)"
  proof (intro allI impI)
    fix j :: nat assume "j < Suc (Suc (Suc (Suc 0)))"
    then consider "j = 0" | "j = Suc 0" | "j = Suc (Suc 0)" | "j = Suc (Suc (Suc 0))"
      by (auto simp: less_Suc_eq)
    then show "\<not> ?acc9 (zd09_iterate 10000 650 j)"
    proof cases
      case 1 show ?thesis unfolding 1 it9(1) by (rule m0)
    next
      case 2 show ?thesis unfolding 2 it9(2) by (rule m1)
    next
      case 3 show ?thesis unfolding 3 it9(3) by (rule m2)
    next
      case 4 show ?thesis unfolding 4 it9(4) by (rule m3)
    qed
  qed
  have a9': "?acc9 (zd09_iterate 10000 650 (Suc (Suc (Suc (Suc 0)))))"
    unfolding it9(5) by (rule a9)
  have o9: "bisection_outcome (zd09_iterate 10000 650) ?acc9 50 (zd09_bisect 10000 650 ?o)"
    using t9 by blast
  have "zd09_bisect 10000 650 ?o
          = (zd09_iterate 10000 650 (Suc (Suc (Suc (Suc 0)))), int (Suc (Suc (Suc (Suc 0)))) + 1, True)"
    by (rule bisection_outcome_first[OF o9 _ a9' none9]) simp
  then have r9: "zd09_bisect 10000 650 ?o = (0.625009375, 5, True)"
    unfolding it9(5) by simp
  have d9: "calculateDensity_ZD09 10000 650 ?o = 0.625009375"
    using t9 unfolding r9 by simp
  show ?thesis using r5 d5 a2 n0 n1 r9 d9 a9 by blast
qed


lemma zd05_next_ok: "bracket_ok lo hi st \<Longrightarrow> bracket_ok lo hi (zd05_next Pt T st)"
  by (cases st) (auto simp: bracket_ok_def Let_def)

lemma zd09_next_ok: "bracket_ok lo hi st \<Longrightarrow> bracket_ok lo hi (zd09_next Pb T st)"
  by (cases st) (auto simp: bracket_ok_def Let_def)

lemma zd05_loop_in_bracket:
  "bracket_ok lo hi st \<Longrightarrow>
   lo \<le> fst (zd05_loop Pt T tol i st) \<and> fst (zd05_loop Pt T tol i st) \<le> hi"
proof (induction Pt T tol i st rule: zd05_loop.induct)
  case (1 Pt T tol iter a b r)
  show ?case
  proof (cases "iter < 50 \<and> \<not> zd05_accept Pt T tol r")
    case True
    have "bracket_ok lo hi (zd05_next Pt T (a, b, r))"
      using "1.prems" by (rule zd05_next_ok)
    with True "1.IH" show ?thesis by (subst (1 2) zd05_loop.simps) simp
  next
    case False
    with "1.prems" show ?thesis
      by (subst (1 2) zd05_loop.simps) (auto simp: bracket_ok_def)
  qed
qed

lemma zd09_loop_in_bracket:
  "bracket_ok lo hi st \<Longrightarrow>
   lo \<le> fst (zd09_loop Pb T opts i st) \<and> fst (zd09_loop Pb T opts i st) \<le> hi"
proof (induction Pb T opts i st rule: zd09_loop.induct)
  case (1 Pb T opts i a b r)
  show ?case
  proof (cases "i < maxIterations opts \<and> \<not> zd09_accept Pb T (pressureToleranceBar opts) r")
    case True
    have "bracket_ok lo hi (zd09_next Pb T (a, b, r))"
      using "1.prems" by (rule zd09_next_ok)
    with True "1.IH" show ?thesis by (subst (1 2) zd09_loop.simps) simp
  next
    case False
    with "1.prems" show ?thesis
      by (subst (1 2) zd09_loop.simps) (auto simp: bracket_ok_def)
  qed
qed

text \<open>
  Claim C9. For every temperature, target pressure and tolerance (and, for the 2009
  variant, every iteration cap), the density returned by the bisection lies in the initial
  bracket: between \<open>10\<^sup>-\<^sup>5\<close> and 2.5 g/cm3 for Zhang and Duan 2005, between \<open>10\<^sup>-\<^sup>5\<close> and
  10 g/cm3 for Zhang and Duan 2009. It is therefore strictly positive, whatever the target
  pressure.
\<close>

theorem eos_density_in_bracket:
  "1 / 10 ^ 5 \<le> zd05_density_g_cm3 Pt T tol \<and> zd05_density_g_cm3 Pt T tol \<le> 2.5
   \<and> 0 < zd05_density_g_cm3 Pt T tol
   \<and> 1 / 10 ^ 5 \<le> calculateDensity_ZD09 Pt T
                     \<lparr> usePsat = False, pressureToleranceBar = tol, maxIterations = n \<rparr>
   \<and> calculateDensity_ZD09 Pt T
        \<lparr> usePsat = False, pressureToleranceBar = tol, maxIterations = n \<rparr> \<le> 10
   \<and> 0 < calculateDensity_ZD09 Pt T
            \<lparr> usePsat = False, pressureToleranceBar = tol, maxIterations = n \<rparr>"
proof -
  let ?o = "\<lparr> usePsat = False, pressureToleranceBar = tol, maxIterations = n \<rparr>"
  have a: "bracket_ok (1 / 10 ^ 5) 2.5 zd05_init"
    by (simp add: bracket_ok_def zd05_init_def)
  have b: "bracket_ok (1 / 10 ^ 5) 10 zd09_init"
    by (simp add: bracket_ok_def zd09_init_def)
  from zd05_loop_in_bracket[OF a, of Pt T tol 0]
  have A: "1 / 10 ^ 5 \<le> zd05_density_g_cm3 Pt T tol \<and> zd05_density_g_cm3 Pt T tol \<le> 2.5"
    by (simp add: zd05_density_g_cm3_def zd05_bisect_def)
  from zd09_loop_in_bracket[OF b, of Pt T ?o 0]
  have B: "1 / 10 ^ 5 \<le> calculateDensity_ZD09 Pt T ?o \<and> calculateDensity_ZD09 Pt T ?o \<le> 10"
    by (simp add: calculateDensity_ZD09_def zd09_bisect_def)
  have "(0::real) < 1 / 10 ^ 5" by simp
  with A B show ?thesis by auto
qed

subsection \<open>Integration engine\<close>

text \<open>
  Rounding to binary64: the rounded value of a positive number lies in the closure of its
  binade, and rounding never crosses zero.
\<close>

lemma round_half_even_ge: "\<lfloor>x\<rfloor> \<le> round_half_even x"
  by (simp add: round_half_even_def Let_def)

lemma round_half_even_le: "round_half_even x \<le> \<lfloor>x\<rfloor> + 1"
  by (simp add: round_half_even_def Let_def)

lemma round_half_even_below:
  assumes "x < of_int N - 1 / 2" shows "round_half_even x \<le> N - 1"
proof -
  have "x < of_int N" using assms by linarith
  then have fl: "\<lfloor>x\<rfloor> \<le> N - 1" by (simp add: floor_less_iff)
  show ?thesis
  proof (cases "\<lfloor>x\<rfloor> = N - 1")
    case True
    then have "x - of_int \<lfloor>x\<rfloor> < 1 / 2" using assms by simp
    then show ?thesis using True by (simp add: round_half_even_def Let_def)
  next
    case False
    then have "\<lfloor>x\<rfloor> \<le> N - 2" using fl by linarith
    then show ?thesis using round_half_even_le[of x] by linarith
  qed
qed

lemma round_half_even_above:
  assumes "of_int N + 1 / 2 < x" "x < of_int N + 1" shows "round_half_even x = N + 1"
proof -
  have "\<lfloor>x\<rfloor> = N" using assms by (simp add: floor_eq_iff)
  then show ?thesis using assms by (simp add: round_half_even_def Let_def)
qed

lemma floor_log2_eq:
  assumes "2 powr (of_int k) \<le> x" "x < 2 powr (of_int k + 1)"
  shows "\<lfloor>log 2 x\<rfloor> = k"
proof -
  have "(0::real) < 2 powr (of_int k)" by simp
  then have pos: "0 < x" using assms(1) by linarith
  show ?thesis
    using assms pos by (simp add: floor_eq_iff le_log_iff log_less_iff)
qed

lemma double_round_binade:
  assumes "2 powr (of_int k) \<le> x" "x < 2 powr (of_int k + 1)"
  shows "double_round x = of_int (round_half_even (x / 2 powr (of_int k - 52))) * 2 powr (of_int k - 52)"
proof -
  have "(0::real) < 2 powr (of_int k)" by simp
  then have pos: "0 < x" using assms(1) by linarith
  have "\<lfloor>log 2 \<bar>x\<bar>\<rfloor> = k" using floor_log2_eq[OF assms] pos by simp
  then show ?thesis using pos by (simp add: double_round_def Let_def)
qed


lemma binade_of_pos:
  assumes "0 < x"
  shows "2 powr (of_int \<lfloor>log 2 x\<rfloor>) \<le> x \<and> x < 2 powr (of_int \<lfloor>log 2 x\<rfloor> + 1)"
proof -
  show ?thesis using floor_log_eq_powr_iff[of x 2 "\<lfloor>log 2 x\<rfloor>"] assms by simp
qed

lemma double_round_ge_1024:
  assumes "1024 \<le> x" shows "1024 \<le> double_round x"
proof -
  define k where "k = \<lfloor>log 2 x\<rfloor>"
  have pos: "0 < x" using assms by linarith
  have bin: "2 powr (of_int k) \<le> x" "x < 2 powr (of_int k + 1)"
    using binade_of_pos[OF pos] by (simp_all add: k_def)
  have "log 2 1024 \<le> log 2 x" using assms by simp
  moreover have "log 2 1024 = 10"
    using log_nat_power[of 2 2 10] by simp
  ultimately have k10: "10 \<le> k" unfolding k_def by (simp add: le_floor_iff)
  define u :: real where "u = 2 powr (of_int k - 52)"
  have upos: "0 < u" by (simp add: u_def)
  have "2 powr (of_int k) / u = 2 powr 52"
    unfolding u_def by (simp add: powr_diff)
  also have "\<dots> = 2 ^ 52" by simp
  finally have q: "2 powr (of_int k) / u = 2 ^ 52" .
  have "2 ^ 52 \<le> x / u"
    using bin(1) upos q by (metis divide_right_mono less_eq_real_def)
  then have "(2 ^ 52 :: int) \<le> \<lfloor>x / u\<rfloor>" by (simp add: le_floor_iff)
  then have "(2 ^ 52 :: int) \<le> round_half_even (x / u)"
    using round_half_even_ge[of "x / u"] by linarith
  then have "(2 ^ 52 :: real) \<le> of_int (round_half_even (x / u))"
    by (metis of_int_le_iff of_int_numeral of_int_power)
  then have "2 ^ 52 * u \<le> of_int (round_half_even (x / u)) * u"
    using upos by (simp add: mult_right_mono)
  moreover have "2 ^ 52 * u = 2 powr (of_int k)"
    using q upos by (simp add: field_simps)
  moreover have "(2::real) powr (of_int 10) \<le> 2 powr (of_int k)"
    by (rule powr_mono) (use k10 in simp_all)
  moreover have "(2::real) powr (of_int 10) = 1024"
    by simp
  ultimately have "1024 \<le> of_int (round_half_even (x / u)) * u" by linarith
  then show ?thesis
    using double_round_binade[OF bin] unfolding u_def by simp
qed

lemma double_round_nonpos:
  assumes "x \<le> 0" shows "double_round x \<le> 0"
proof (cases "x = 0")
  case True then show ?thesis by (simp add: double_round_def)
next
  case False
  define u :: real where "u = 2 powr (of_int \<lfloor>log 2 \<bar>x\<bar>\<rfloor> - 52)"
  have upos: "0 < u" by (simp add: u_def)
  have "x / u < 0" using False assms upos by (simp add: divide_neg_pos)
  then have "\<lfloor>x / u\<rfloor> \<le> -1" by (simp add: floor_le_iff)
  then have "round_half_even (x / u) \<le> 0" using round_half_even_le[of "x / u"] by linarith
  then have "of_int (round_half_even (x / u)) * u \<le> 0"
    using upos by (simp add: mult_le_0_iff)
  then show ?thesis using False by (simp add: double_round_def Let_def u_def)
qed

lemma double_round_below_512:
  assumes "0 < x" "x < 512" shows "double_round x \<le> 512"
proof -
  define k where "k = \<lfloor>log 2 x\<rfloor>"
  have bin: "2 powr (of_int k) \<le> x" "x < 2 powr (of_int k + 1)"
    using binade_of_pos[OF assms(1)] by (simp_all add: k_def)
  have "log 2 x < log 2 512" using assms by simp
  moreover have "log 2 512 = 9" using log_nat_power[of 2 2 9] by simp
  ultimately have k8: "k \<le> 8" unfolding k_def by (simp add: floor_le_iff)
  define u :: real where "u = 2 powr (of_int k - 52)"
  have upos: "0 < u" by (simp add: u_def)
  have "2 powr (of_int k + 1) / u = 2 powr 53"
    unfolding u_def by (simp add: powr_diff[symmetric])
  also have "\<dots> = 2 ^ 53" by simp
  finally have q: "2 powr (of_int k + 1) / u = 2 ^ 53" .
  have "x / u < 2 ^ 53"
    using bin(2) upos q by (metis divide_strict_right_mono)
  then have "\<lfloor>x / u\<rfloor> < 2 ^ 53" by (simp add: floor_less_iff)
  then have "round_half_even (x / u) \<le> 2 ^ 53"
    using round_half_even_le[of "x / u"] by linarith
  then have "of_int (round_half_even (x / u)) \<le> (2 ^ 53 :: real)"
    by (metis of_int_le_iff of_int_numeral of_int_power)
  then have "of_int (round_half_even (x / u)) * u \<le> 2 ^ 53 * u"
    using upos by (simp add: mult_right_mono)
  moreover have "2 ^ 53 * u = 2 powr (of_int k + 1)"
    using q upos by (simp add: field_simps)
  moreover have "(2::real) powr (of_int k + 1) \<le> 2 powr (of_int 9)"
    by (rule powr_mono) (use k8 in simp_all)
  moreover have "(2::real) powr (of_int 9) = 512"
    by simp
  ultimately have "of_int (round_half_even (x / u)) * u \<le> 512" by linarith
  then show ?thesis
    using double_round_binade[OF bin] unfolding u_def by simp
qed

lemma powr_9_10: "(2::real) powr (of_int 9) = 512" "(2::real) powr (of_int 9 + 1) = 1024"
  "(2::real) powr (of_int 9 - 52) = 1 / 2 ^ 43"
proof -
  show "(2::real) powr (of_int 9) = 512" by simp
  show "(2::real) powr (of_int 9 + 1) = 1024" by simp
  have "(2::real) powr (of_int 9 - 52) = 2 powr (- 43)" by simp
  also have "\<dots> = inverse (2 powr 43)" by (rule powr_minus)
  also have "\<dots> = 1 / 2 ^ 43" by (simp add: inverse_eq_divide)
  finally show "(2::real) powr (of_int 9 - 52) = 1 / 2 ^ 43" .
qed

lemma double_round_in_binade_9:
  assumes "512 \<le> x" "x < 1024"
  shows "double_round x = of_int (round_half_even (x * 2 ^ 43)) / 2 ^ 43"
  using double_round_binade[of 9 x] assms unfolding powr_9_10 by simp

lemma double_round_below_1000:
  assumes "x < 1000 - 1 / 2 ^ 44" shows "double_round x < 1000"
proof -
  consider "x \<le> 0" | "0 < x" "x < 512" | "512 \<le> x" by linarith
  then show ?thesis
  proof cases
    case 1 then show ?thesis using double_round_nonpos[of x] by linarith
  next
    case 2 then show ?thesis using double_round_below_512[of x] by linarith
  next
    case 3
    have lt: "x < 1024" using assms by simp
    have "x * 2 ^ 43 < (1000 - 1 / 2 ^ 44) * 2 ^ 43" using assms by simp
    also have "\<dots> = of_int (1000 * 2 ^ 43) - 1 / 2" by simp
    finally have "round_half_even (x * 2 ^ 43) \<le> 1000 * 2 ^ 43 - 1"
      by (rule round_half_even_below)
    then have "of_int (round_half_even (x * 2 ^ 43)) \<le> (of_int (1000 * 2 ^ 43 - 1) :: real)"
      by (simp only: of_int_le_iff)
    then have "of_int (round_half_even (x * 2 ^ 43)) / 2 ^ 43 \<le> (of_int (1000 * 2 ^ 43 - 1) :: real) / 2 ^ 43"
      by (simp add: divide_right_mono)
    also have "\<dots> < 1000" by simp
    finally show ?thesis unfolding double_round_in_binade_9[OF 3 lt] .
  qed
qed

text \<open>
  The conversion to bar at the reference pressure. The binary64 number \<open>10\<^sup>8\<close> lies in the
  binade of \<open>2\<^sup>2\<^sup>6\<close>, so the largest binary64 number below it is \<open>10\<^sup>8 - 2\<^sup>-\<^sup>2\<^sup>6\<close>: every
  pressure below 1000 bar converts to less than 1000. The pressure \<open>10\<^sup>8\<close> Pa itself converts
  to \<open>1000 + 2\<^sup>-\<^sup>4\<^sup>3\<close> (printed 1000.0000000000001), not to 1000.
\<close>

lemma pressure_in_bar_below_reference:
  assumes "P_Pa \<le> 10 ^ 8 - 1 / 2 ^ 26" shows "double_round (P_Pa * double_1e_minus_5) < 1000"
proof -
  have "P_Pa * double_1e_minus_5 \<le> (10 ^ 8 - 1 / 2 ^ 26) * double_1e_minus_5"
    using assms by (simp add: double_1e_minus_5_def mult_right_mono)
  also have "\<dots> < 1000 - 1 / 2 ^ 44" by (simp add: double_1e_minus_5_def)
  finally show ?thesis by (rule double_round_below_1000)
qed

lemma pressure_in_bar_at_reference: "double_round (10 ^ 8 * double_1e_minus_5) = 1000 + 1 / 2 ^ 43"
proof -
  define x :: real where "x = 10 ^ 8 * double_1e_minus_5"
  have b: "512 \<le> x" "x < 1024" by (simp_all add: x_def double_1e_minus_5_def)
  have "round_half_even (x * 2 ^ 43) = 8796093022208000 + 1"
    by (rule round_half_even_above) (simp_all add: x_def double_1e_minus_5_def)
  then have "double_round x = of_int (8796093022208000 + 1) / 2 ^ 43"
    unfolding double_round_in_binade_9[OF b] by simp
  also have "\<dots> = 1000 + 1 / 2 ^ 43" by simp
  finally show ?thesis unfolding x_def .
qed

lemma pressure_in_bar_above_reference:
  assumes "1024 * 10 ^ 5 \<le> P_Pa" shows "1000 < double_round (P_Pa * double_1e_minus_5)"
proof -
  have "1024 \<le> (1024 * 10 ^ 5) * double_1e_minus_5" by (simp add: double_1e_minus_5_def)
  also have "\<dots> \<le> P_Pa * double_1e_minus_5"
    using assms by (simp add: double_1e_minus_5_def mult_right_mono)
  finally have "1024 \<le> double_round (P_Pa * double_1e_minus_5)" by (rule double_round_ge_1024)
  then show ?thesis by linarith
qed


lemma guardedMolarVolume_Some:
  "guardedMolarVolume M wt = Some (if 0 < D wt then M / D wt else 0)"
  by (simp add: guardedMolarVolume_def density_quotient_def)



















text \<open>
  At the depth cap (\<open>current_depth = max_depth\<close>) the helper returns the 3-point Simpson
  estimate only if the convergence test passes; otherwise it recurses once more, both calls
  are beyond the cap and return zero, and the estimate of the branch is dropped.
\<close>

lemma adaptiveSimpsonsHelper_at_cap:
  "adaptiveSimpsonsHelper wtm T_K P_L P_R tol max_depth max_depth th M Vm_L Vm_R =
     (let wt_mid = wtm T_K ((P_L + P_R) / 2) th;
          Vm_mid = (if 0 < D wt_mid then M / D wt_mid else 0);
          S = (P_R - P_L) / 6 * (Vm_L + 4 * Vm_mid + Vm_R)
      in if \<bar>Vm_mid - 0.5 * (Vm_L + Vm_R)\<bar> \<le> tol then Some S else Some 0)"
proof -
  have below: "adaptiveSimpsonsHelper wtm T_K a b t max_depth (max_depth + 1) th M x y = Some 0"
    for a b t x y
    by (subst adaptiveSimpsonsHelper.simps) simp
  show ?thesis
    by (subst adaptiveSimpsonsHelper.simps)
       (simp add: Let_def guardedMolarVolume_Some below)
qed

text \<open>
  Single steps of the bisection when the pressure of the current density is off the target
  by more than the tolerance, and bounds on the result from the pressure at the next probe.
\<close>

lemma zd05_loop_step_down:
  "iter < 50 \<Longrightarrow> 0 \<le> tol \<Longrightarrow> Pt + tol < zd05_pressure_bar r T \<Longrightarrow>
   zd05_loop Pt T tol iter (a, b, r) = zd05_loop Pt T tol (iter + 1) (a, r, 0.5 * (r + a))"
  by (subst zd05_loop.simps) (simp add: zd05_accept_def Let_def)

lemma zd05_loop_step_up:
  "iter < 50 \<Longrightarrow> 0 \<le> tol \<Longrightarrow> zd05_pressure_bar r T < Pt - tol \<Longrightarrow>
   zd05_loop Pt T tol iter (a, b, r) = zd05_loop Pt T tol (iter + 1) (r, b, 0.5 * (r + b))"
  by (subst zd05_loop.simps) (simp add: zd05_accept_def Let_def)

lemma zd05_loop_le_max:
  "a \<le> r \<Longrightarrow> r \<le> b \<Longrightarrow> fst (zd05_loop Pt T tol iter (a, b, r)) \<le> b"
  using zd05_loop_in_bracket[of a b "(a, b, r)" Pt T tol iter] by (simp add: bracket_ok_def)

lemma zd05_loop_ge_min:
  "a \<le> r \<Longrightarrow> r \<le> b \<Longrightarrow> a \<le> fst (zd05_loop Pt T tol iter (a, b, r))"
  using zd05_loop_in_bracket[of a b "(a, b, r)" Pt T tol iter] by (simp add: bracket_ok_def)

lemma zd05_loop_probe_upper:
  assumes "a \<le> r" "r \<le> b" "Pt < zd05_pressure_bar (0.5 * (r + b)) T"
  shows "fst (zd05_loop Pt T tol iter (a, b, r)) \<le> 0.5 * (r + b)"
proof -
  let ?r' = "0.5 * (r + b)"
  have r': "r \<le> ?r'" "?r' \<le> b" using assms by simp_all
  have second: "fst (zd05_loop Pt T tol (iter + 1) (r, b, ?r')) \<le> ?r'"
  proof (subst zd05_loop.simps, cases "iter + 1 < 50 \<and> \<not> zd05_accept Pt T tol ?r'")
    case True
    have "fst (zd05_loop Pt T tol (iter + 1 + 1) (r, ?r', 0.5 * (?r' + r))) \<le> ?r'"
      by (rule zd05_loop_le_max) (use r' in simp_all)
    with True assms(3) show "fst (if iter + 1 < 50
          then if zd05_accept Pt T tol ?r' then (?r', iter + 1 + 1, True)
               else zd05_loop Pt T tol (iter + 1 + 1) (zd05_next Pt T (r, b, ?r'))
          else (?r', iter + 1, False)) \<le> ?r'"
      by (simp add: Let_def)
  next
    case False
    then show "fst (if iter + 1 < 50
          then if zd05_accept Pt T tol ?r' then (?r', iter + 1 + 1, True)
               else zd05_loop Pt T tol (iter + 1 + 1) (zd05_next Pt T (r, b, ?r'))
          else (?r', iter + 1, False)) \<le> ?r'"
      by auto
  qed
  have first: "fst (zd05_loop Pt T tol (iter + 1) (a, r, 0.5 * (r + a))) \<le> ?r'"
    using zd05_loop_le_max[of a "0.5 * (r + a)" r Pt T tol "iter + 1"] assms r' by simp
  show ?thesis
    apply (subst zd05_loop.simps)
    using first second r' by (auto simp add: Let_def)
qed

lemma zd05_loop_probe_lower:
  assumes "a \<le> r" "r \<le> b" "zd05_pressure_bar (0.5 * (r + a)) T \<le> Pt"
  shows "0.5 * (r + a) \<le> fst (zd05_loop Pt T tol iter (a, b, r))"
proof -
  let ?r' = "0.5 * (r + a)"
  have r': "a \<le> ?r'" "?r' \<le> r" using assms by simp_all
  have second: "?r' \<le> fst (zd05_loop Pt T tol (iter + 1) (a, r, ?r'))"
  proof (subst zd05_loop.simps, cases "iter + 1 < 50 \<and> \<not> zd05_accept Pt T tol ?r'")
    case True
    have "?r' \<le> fst (zd05_loop Pt T tol (iter + 1 + 1) (?r', r, 0.5 * (?r' + r)))"
      by (rule zd05_loop_ge_min) (use r' in simp_all)
    with True assms(3) show "?r' \<le> fst (if iter + 1 < 50
          then if zd05_accept Pt T tol ?r' then (?r', iter + 1 + 1, True)
               else zd05_loop Pt T tol (iter + 1 + 1) (zd05_next Pt T (a, r, ?r'))
          else (?r', iter + 1, False))"
      by (simp add: Let_def)
  next
    case False
    then show "?r' \<le> fst (if iter + 1 < 50
          then if zd05_accept Pt T tol ?r' then (?r', iter + 1 + 1, True)
               else zd05_loop Pt T tol (iter + 1 + 1) (zd05_next Pt T (a, r, ?r'))
          else (?r', iter + 1, False))"
      by auto
  qed
  have first: "?r' \<le> fst (zd05_loop Pt T tol (iter + 1) (r, b, 0.5 * (r + b)))"
    using zd05_loop_ge_min[of r "0.5 * (r + b)" b Pt T tol "iter + 1"] assms r' by simp
  show ?thesis
    apply (subst zd05_loop.simps)
    using first second r' by (auto simp add: Let_def)
qed

lemma zd05_density_650_1000: "zd05_density_g_cm3 1000 650 0.001 \<le> 0.468758125"
proof -
  have "zd05_bisect 1000 650 0.001 = zd05_loop 1000 650 0.001 1 (1 / 10 ^ 5, 2.5, 1.250005)"
    unfolding zd05_bisect_def zd05_init_def
    by (subst zd05_loop_step_up) (use zd05_pressure_650_a in simp_all)
  also have "\<dots> = zd05_loop 1000 650 0.001 2 (1 / 10 ^ 5, 1.250005, 0.6250075)"
    by (subst zd05_loop_step_down) (use zd05_pressure_650_b in simp_all)
  also have "\<dots> = zd05_loop 1000 650 0.001 3 (1 / 10 ^ 5, 0.6250075, 0.31250875)"
    by (subst zd05_loop_step_down) (use zd05_pressure_650_c in simp_all)
  finally have eq: "zd05_bisect 1000 650 0.001
      = zd05_loop 1000 650 0.001 3 (1 / 10 ^ 5, 0.6250075, 0.31250875)" .
  have "fst (zd05_loop 1000 650 0.001 3 (1 / 10 ^ 5, 0.6250075, 0.31250875))
          \<le> 0.5 * (0.31250875 + 0.6250075)"
    by (rule zd05_loop_probe_upper) (use zd05_pressure_650_d in simp_all)
  then show ?thesis unfolding zd05_density_g_cm3_def eq by simp
qed

lemma zd05_density_650_8000: "0.781256875 \<le> zd05_density_g_cm3 8000 650 0.001"
proof -
  have "zd05_bisect 8000 650 0.001 = zd05_loop 8000 650 0.001 1 (1 / 10 ^ 5, 2.5, 1.250005)"
    unfolding zd05_bisect_def zd05_init_def
    by (subst zd05_loop_step_up) (use zd05_pressure_650_a in simp_all)
  also have "\<dots> = zd05_loop 8000 650 0.001 2 (1 / 10 ^ 5, 1.250005, 0.6250075)"
    by (subst zd05_loop_step_down) (use zd05_pressure_650_b in simp_all)
  also have "\<dots> = zd05_loop 8000 650 0.001 3 (0.6250075, 1.250005, 0.93750625)"
    by (subst zd05_loop_step_up) (use zd05_pressure_650_c in simp_all)
  finally have eq: "zd05_bisect 8000 650 0.001
      = zd05_loop 8000 650 0.001 3 (0.6250075, 1.250005, 0.93750625)" .
  have "0.5 * (0.93750625 + 0.6250075)
          \<le> fst (zd05_loop 8000 650 0.001 3 (0.6250075, 1.250005, 0.93750625))"
    by (rule zd05_loop_probe_lower) (use zd05_pressure_650_e in simp_all)
  then show ?thesis unfolding zd05_density_g_cm3_def eq by simp
qed

lemma zd05_density_650_15000: "zd05_density_g_cm3 15000 650 0.001 \<le> 1.250005"
proof -
  have "zd05_bisect 15000 650 0.001 = zd05_loop 15000 650 0.001 1 (1 / 10 ^ 5, 2.5, 1.250005)"
    unfolding zd05_bisect_def zd05_init_def
    by (subst zd05_loop_step_up) (use zd05_pressure_650_a in simp_all)
  also have "\<dots> = zd05_loop 15000 650 0.001 2 (1 / 10 ^ 5, 1.250005, 0.6250075)"
    by (subst zd05_loop_step_down) (use zd05_pressure_650_b in simp_all)
  finally have eq: "zd05_bisect 15000 650 0.001
      = zd05_loop 15000 650 0.001 2 (1 / 10 ^ 5, 1.250005, 0.6250075)" .
  have "fst (zd05_loop 15000 650 0.001 2 (1 / 10 ^ 5, 1.250005, 0.6250075)) \<le> 1.250005"
    by (rule zd05_loop_le_max) simp_all
  then show ?thesis unfolding zd05_density_g_cm3_def eq by simp
qed

lemma zd05_density_lower: "1 / 10 ^ 5 \<le> zd05_density_g_cm3 Pt T tol"
  using zd05_loop_in_bracket[of "1 / 10 ^ 5" "2.5" zd05_init Pt T tol 0]
  by (simp add: bracket_ok_def zd05_init_def zd05_density_g_cm3_def zd05_bisect_def)

lemma zd05_thermo_model_D:
  "D (zd05_thermo_model T P th)
     = zd05_density_g_cm3 (P * (1 / 10 ^ 5)) (T - 273.15) (thermo_densityTolerance th) * 1000"
  by (simp add: zd05_thermo_model_def waterThermoPropsZhangDuan2005_def Let_def
      bar_from_P_Pa_def rho_kg_m3_from_g_cm3_def)

lemma adaptive_failing_input:
  fixes th :: WaterThermoModelOptions and M :: real
  assumes th: "thermo_densityTolerance th = 0.001" and M: "M = 18.01528 / 10 ^ 3"
  shows "adaptiveSimpson zd05_thermo_model 923.15 (10 ^ 8) (15 * 10 ^ 8) (1 / 10 ^ 6) 0 th M = Some 0"
    and "\<exists>S. 0 < S \<and> adaptiveSimpson zd05_thermo_model 923.15 (10 ^ 8) (15 * 10 ^ 8) 2 0 th M = Some S"
proof -
  define rL where "rL = zd05_density_g_cm3 1000 650 0.001"
  define rM where "rM = zd05_density_g_cm3 8000 650 0.001"
  define rR where "rR = zd05_density_g_cm3 15000 650 0.001"
  have L: "1 / 10 ^ 5 \<le> rL" "rL \<le> 0.468758125"
    using zd05_density_lower zd05_density_650_1000 by (simp_all add: rL_def)
  have Mb: "0.781256875 \<le> rM"
    using zd05_density_650_8000 by (simp add: rM_def)
  have R: "1 / 10 ^ 5 \<le> rR" "rR \<le> 1.250005"
    using zd05_density_lower zd05_density_650_15000 by (simp_all add: rR_def)
  have pos: "0 < rL" "0 < rM" "0 < rR" using L Mb R by simp_all
  have DL: "D (zd05_thermo_model 923.15 (10 ^ 8) th) = rL * 1000"
    by (simp add: zd05_thermo_model_D th rL_def)
  have DM: "D (zd05_thermo_model 923.15 ((10 ^ 8 + 15 * 10 ^ 8) / 2) th) = rM * 1000"
    by (simp add: zd05_thermo_model_D th rM_def)
  have DR: "D (zd05_thermo_model 923.15 (15 * 10 ^ 8) th) = rR * 1000"
    by (simp add: zd05_thermo_model_D th rR_def)
  define VL where "VL = M / (rL * 1000)"
  define VM where "VM = M / (rM * 1000)"
  define VR where "VR = M / (rR * 1000)"
  have Mpos: "0 < M" by (simp add: M)
  have VLb: "M / (0.468758125 * 1000) \<le> VL"
    unfolding VL_def using L pos Mpos by (intro divide_left_mono) simp_all
  have VRb: "M / (1.250005 * 1000) \<le> VR"
    unfolding VR_def using R pos Mpos by (intro divide_left_mono) simp_all
  have VMb: "VM \<le> M / (0.781256875 * 1000)"
    unfolding VM_def using Mb pos Mpos by (intro divide_left_mono) simp_all
  have VMpos: "0 < VM" "0 < VL" "0 < VR" using pos Mpos by (simp_all add: VM_def VL_def VR_def)
  have VLu: "VL \<le> M / (1 / 10 ^ 5 * 1000)"
    unfolding VL_def using L pos Mpos by (intro divide_left_mono) simp_all
  have VRu: "VR \<le> M / (1 / 10 ^ 5 * 1000)"
    unfolding VR_def using R pos Mpos by (intro divide_left_mono) simp_all
  have "38 / 10 ^ 6 \<le> M / (0.468758125 * 1000)" "14 / 10 ^ 6 \<le> M / (1.250005 * 1000)"
    "M / (0.781256875 * 1000) \<le> 24 / 10 ^ 6"
    by (simp_all add: M)
  with VLb VRb VMb have num: "38 / 10 ^ 6 \<le> VL" "14 / 10 ^ 6 \<le> VR" "VM \<le> 24 / 10 ^ 6"
    by linarith+
  have gap: "1 / 10 ^ 6 < 0.5 * (VL + VR) - VM"
    using num by simp argo
  have not_conv: "\<not> \<bar>VM - 0.5 * (VL + VR)\<bar> \<le> 1 / 10 ^ 6"
    using gap by argo
  have "M / (1 / 10 ^ 5 * 1000) \<le> 2" by (simp add: M)
  with VLu VRu have up: "VL \<le> 2" "VR \<le> 2" by linarith+
  have conv: "\<bar>VM - 0.5 * (VL + VR)\<bar> \<le> 2"
    using up num VMpos by argo
  have start: "adaptiveSimpson zd05_thermo_model 923.15 (10 ^ 8) (15 * 10 ^ 8) tol 0 th M
      = adaptiveSimpsonsHelper zd05_thermo_model 923.15 (10 ^ 8) (15 * 10 ^ 8) tol 0 0 th M VL VR" for tol
    unfolding adaptiveSimpson_def guardedMolarVolume_Some DL DR
    using pos by (simp add: VL_def VR_def)
  have cap: "adaptiveSimpsonsHelper zd05_thermo_model 923.15 (10 ^ 8) (15 * 10 ^ 8) tol 0 0 th M VL VR
      = (if \<bar>VM - 0.5 * (VL + VR)\<bar> \<le> tol
         then Some ((15 * 10 ^ 8 - 10 ^ 8) / 6 * (VL + 4 * VM + VR)) else Some 0)" for tol
    unfolding adaptiveSimpsonsHelper_at_cap Let_def DM VM_def using pos by simp
  show "adaptiveSimpson zd05_thermo_model 923.15 (10 ^ 8) (15 * 10 ^ 8) (1 / 10 ^ 6) 0 th M = Some 0"
    unfolding start cap using not_conv by simp
  have "adaptiveSimpson zd05_thermo_model 923.15 (10 ^ 8) (15 * 10 ^ 8) 2 0 th M
      = Some ((15 * 10 ^ 8 - 10 ^ 8) / 6 * (VL + 4 * VM + VR))"
    unfolding start cap using conv by simp
  moreover have "0 < (15 * 10 ^ 8 - 10 ^ 8) / 6 * (VL + 4 * VM + VR)"
    using VMpos by simp
  ultimately show "\<exists>S. 0 < S \<and> adaptiveSimpson zd05_thermo_model 923.15 (10 ^ 8) (15 * 10 ^ 8) 2 0 th M = Some S"
    by blast
qed

text \<open>
  Claim C1 does not hold of the code. Failing input: Zhang-Duan 2005 water at 650 degrees
  Celsius, integration from 1000 bar to 15000 bar with the adaptive method, tolerance
  \<open>10\<^sup>-\<^sup>6\<close> and a subdivision cap of 0. The convergence test fails at depth 0, which is
  the cap; the branch's Simpson estimate is dropped, the integral is exactly zero and the
  Gibbs energy at 15000 bar equals the 1000-bar baseline. With the tolerance 2 the same
  call accepts the estimate, which is positive.
\<close>

theorem adaptive_simpson_cap_discards_estimate:
  "adaptiveSimpson zd05_thermo_model 923.15 (10 ^ 8) (15 * 10 ^ 8) (1 / 10 ^ 6) 0
      (dew_thermo_options \<lparr> thermo_densityTolerance := 0.001 \<rparr>) (18.01528 / 10 ^ 3) = Some 0
   \<and> (\<exists>S. 0 < S \<and>
        adaptiveSimpson zd05_thermo_model 923.15 (10 ^ 8) (15 * 10 ^ 8) 2 0
          (dew_thermo_options \<lparr> thermo_densityTolerance := 0.001 \<rparr>) (18.01528 / 10 ^ 3) = Some S)
   \<and> gibbsDewIntegral_J_per_mol zd05_thermo_model 923.15 (15 * 10 ^ 8) dew_thermo_options
        (dew_gibbs_options \<lparr> integrationMethod := AdaptiveSimpson,
                              adaptiveIntegrationTolerance := 1 / 10 ^ 6,
                              maxAdaptiveSubdivisions := 0 \<rparr>)
       = Some (GAtOneKb_cal_per_mol 650 * 4.184)"
proof -
  let ?th = "dew_thermo_options \<lparr> thermo_densityTolerance := 0.001 \<rparr>"
  have th: "thermo_densityTolerance ?th = 0.001" by simp
  note a = adaptive_failing_input[OF th refl]
  have g: "gibbsDewIntegral_J_per_mol zd05_thermo_model 923.15 (15 * 10 ^ 8) dew_thermo_options
        (dew_gibbs_options \<lparr> integrationMethod := AdaptiveSimpson,
                              adaptiveIntegrationTolerance := 1 / 10 ^ 6,
                              maxAdaptiveSubdivisions := 0 \<rparr>)
       = Option.bind (adaptiveSimpson zd05_thermo_model 923.15 (10 ^ 8) (15 * 10 ^ 8) (1 / 10 ^ 6) 0
            ?th (18.01528 / 10 ^ 3))
          (\<lambda>G_int_J. Some (GAtOneKb_cal_per_mol 650 * 4.184 + G_int_J))"
    using pressure_in_bar_above_reference[of "15 * 10 ^ 8"]
    by (simp add: gibbsDewIntegral_J_per_mol_def Let_def dew_gibbs_options_def toCelsius_def)
  show ?thesis
    unfolding g using a by simp
qed

subsection \<open>DEW integral Gibbs model\<close>

text \<open>
  Claim C2 as stated fails below the reference pressure: at 500 degrees Celsius and 500 bar
  the model returns zero, not the 1-kbar baseline (which is not zero there).
\<close>

theorem gibbs_below_reference_counterexample:
  "(5 * 10 ^ 7 :: real) \<le> 1000 * 10 ^ 5 \<and>
   gibbsDewIntegral_J_per_mol zd05_thermo_model 773.15 (5 * 10 ^ 7)
     dew_thermo_options dew_gibbs_options = Some 0 \<and>
   GAtOneKb_cal_per_mol (toCelsius 773.15) * 4.184 \<noteq> 0 \<and>
   gibbsDewIntegral_J_per_mol zd05_thermo_model 773.15 (5 * 10 ^ 7)
     dew_thermo_options dew_gibbs_options \<noteq> Some (GAtOneKb_cal_per_mol (toCelsius 773.15) * 4.184)"
proof -
  have lt: "double_round (5 * 10 ^ 7 * double_1e_minus_5) < 1000"
    by (rule pressure_in_bar_below_reference) simp
  have g: "gibbsDewIntegral_J_per_mol zd05_thermo_model 773.15 (5 * 10 ^ 7)
             dew_thermo_options dew_gibbs_options = Some 0"
    unfolding gibbsDewIntegral_J_per_mol_def Let_def using lt by simp
  have ne: "GAtOneKb_cal_per_mol (toCelsius 773.15) * 4.184 \<noteq> 0"
    by (simp add: GAtOneKb_cal_per_mol_def toCelsius_def)
  show ?thesis unfolding g using ne by simp
qed

text \<open>
  Claim C2, amended. For every temperature and every pressure below 1000 bar (every binary64
  pressure below \<open>10\<^sup>8\<close> Pa is at most \<open>10\<^sup>8 - 2\<^sup>-\<^sup>2\<^sup>6\<close> Pa), whatever the equation of state
  and the options, the DEW integral Gibbs model computes no pressure integral and returns
  exactly zero, not the 1-kbar baseline.
\<close>

theorem gibbs_below_reference:
  "P_Pa \<le> 10 ^ 8 - 1 / 2 ^ 26 \<Longrightarrow> gibbsDewIntegral_J_per_mol wtm T_K P_Pa th opt = Some 0"
  using pressure_in_bar_below_reference[of P_Pa]
  by (simp add: gibbsDewIntegral_J_per_mol_def Let_def)

theorem gibbs_below_reference_witness:
  "(99999999 :: real) \<le> 10 ^ 8 - 1 / 2 ^ 26 \<and>
   gibbsDewIntegral_J_per_mol zd05_thermo_model 773.15 99999999
     dew_thermo_options (dew_gibbs_options \<lparr> useExcelIntegration := True \<rparr>) = Some 0"
  using gibbs_below_reference[of 99999999 zd05_thermo_model "773.15" dew_thermo_options
      "dew_gibbs_options \<lparr> useExcelIntegration := True \<rparr>"]
  by simp

subsection \<open>Dielectric model selector\<close>

lemma franck_consistent:
  "epsilon (waterElectroPropsFranck1990 T P wt) \<noteq> 0 \<Longrightarrow>
   bornZ (waterElectroPropsFranck1990 T P wt) = - 1 / epsilon (waterElectroPropsFranck1990 T P wt) \<and>
   bornQ (waterElectroPropsFranck1990 T P wt)
     = epsilonP (waterElectroPropsFranck1990 T P wt) / (epsilon (waterElectroPropsFranck1990 T P wt)) ^ 2"
  by (simp add: waterElectroPropsFranck1990_def Let_def power2_eq_square)

lemma fernandez_consistent:
  "epsilon (waterElectroPropsFernandez1997 T P wt) \<noteq> 0 \<Longrightarrow>
   bornZ (waterElectroPropsFernandez1997 T P wt) = - 1 / epsilon (waterElectroPropsFernandez1997 T P wt) \<and>
   bornQ (waterElectroPropsFernandez1997 T P wt)
     = epsilonP (waterElectroPropsFernandez1997 T P wt) / (epsilon (waterElectroPropsFernandez1997 T P wt)) ^ 2"
  by (simp add: waterElectroPropsFernandez1997_def Let_def power2_eq_square)

lemma power_consistent:
  "epsilon (waterElectroPropsPowerFunction T P wt) \<noteq> 0 \<Longrightarrow>
   bornZ (waterElectroPropsPowerFunction T P wt) = - 1 / epsilon (waterElectroPropsPowerFunction T P wt) \<and>
   bornQ (waterElectroPropsPowerFunction T P wt)
     = epsilonP (waterElectroPropsPowerFunction T P wt) / (epsilon (waterElectroPropsPowerFunction T P wt)) ^ 2"
  by (simp add: waterElectroPropsPowerFunction_def Let_def power2_eq_square)

lemma jn_consistent:
  "bornZ (waterElectroPropsJohnsonNorton jn T P wt) = - 1 / epsilon (waterElectroPropsJohnsonNorton jn T P wt) \<and>
   bornQ (waterElectroPropsJohnsonNorton jn T P wt)
     = epsilonP (waterElectroPropsJohnsonNorton jn T P wt) / (epsilon (waterElectroPropsJohnsonNorton jn T P wt)) ^ 2"
  by (simp add: waterElectroPropsJohnsonNorton_def Let_def power2_eq_square)

text \<open>
  The saturation override either leaves the record as it is or sets all four fields
  together, with a positive permittivity.
\<close>

lemma override_consistent:
  assumes "epsilon we \<noteq> 0 \<Longrightarrow> bornZ we = - 1 / epsilon we \<and> bornQ we = epsilonP we / (epsilon we) ^ 2"
    and "epsilon (maybeApplyPsatOverride psatWP T P opt we) \<noteq> 0"
  shows "bornZ (maybeApplyPsatOverride psatWP T P opt we)
           = - 1 / epsilon (maybeApplyPsatOverride psatWP T P opt we) \<and>
         bornQ (maybeApplyPsatOverride psatWP T P opt we)
           = epsilonP (maybeApplyPsatOverride psatWP T P opt we)
             / (epsilon (maybeApplyPsatOverride psatWP T P opt we)) ^ 2"
  using assms
  by (auto simp add: maybeApplyPsatOverride_def Let_def power2_eq_square split: if_splits)

text \<open>
  The selector of WaterElectroModel.cpp keeps the Born coefficients consistent: every state
  it returns, for each of the four formulations and whether or not the near-saturation
  override is applied, satisfies \<open>bornZ = - 1 / \<epsilon>\<close> and \<open>bornQ = \<epsilon>\<^sub>P / \<epsilon>\<^sup>2\<close> for the \<open>\<epsilon>\<close> and
  \<open>\<epsilon>\<^sub>P\<close> of the same result, whenever \<open>\<epsilon>\<close> is not zero.
\<close>

lemma electro_model_selector_consistent:
  assumes "we = waterElectroPropsModel jn psatWP T P wt opt" and "epsilon we \<noteq> 0"
  shows "bornZ we = - 1 / epsilon we \<and> bornQ we = epsilonP we / (epsilon we) ^ 2"
proof (cases "electro_model opt")
  case JohnsonNorton1991
  then show ?thesis
    using assms override_consistent[of "waterElectroPropsJohnsonNorton jn T P wt" psatWP T P opt]
      jn_consistent[of jn T P wt]
    by (simp add: waterElectroPropsModel_def)
next
  case Franck1990
  then show ?thesis
    using assms override_consistent[of "waterElectroPropsFranck1990 T P wt" psatWP T P opt]
      franck_consistent[of T P wt]
    by (simp add: waterElectroPropsModel_def)
next
  case Fernandez1997
  then show ?thesis
    using assms override_consistent[of "waterElectroPropsFernandez1997 T P wt" psatWP T P opt]
      fernandez_consistent[of T P wt]
    by (simp add: waterElectroPropsModel_def)
next
  case PowerFunction
  then show ?thesis
    using assms override_consistent[of "waterElectroPropsPowerFunction T P wt" psatWP T P opt]
      power_consistent[of T P wt]
    by (simp add: waterElectroPropsModel_def)
qed

text \<open>
  The selector of WaterDielectricModel.cpp without the saturation override returns the
  state of the primary formulation, which is consistent as well.
\<close>

lemma electro_dielectric_selector_consistent_without_override:
  assumes "psatMode opts = PsatModeNone"
    and "we = waterElectroPropsModel_dielectric jn psatWP T P wt opts" and "epsilon we \<noteq> 0"
  shows "bornZ we = - 1 / epsilon we \<and> bornQ we = epsilonP we / (epsilon we) ^ 2"
  using assms franck_consistent[of T P wt] fernandez_consistent[of T P wt]
    power_consistent[of T P wt] jn_consistent[of jn T P wt]
  by (cases "primary opts") (simp_all add: waterElectroPropsModel_dielectric_def evaluatePrimaryModel_def)

text \<open>
  Whenever that selector applies the saturation override with \<^verbatim>\<open>overrideQWithPsatFit\<close> set
  (the default), the result carries the saturation fit of \<open>Q\<close> in \<open>bornQ\<close> and zero in
  \<open>epsilonP\<close>.
\<close>

lemma applyPsatOverrides_fields:
  "overrideQWithPsatFit opts \<Longrightarrow>
   epsilon (applyPsatOverrides T opts we) = waterPsatEpsilonDEW T \<and>
   epsilonP (applyPsatOverrides T opts we) = 0 \<and>
   bornQ (applyPsatOverrides T opts we) = waterPsatBornQDEW T"
  by (simp add: applyPsatOverrides_def Let_def)

lemma waterPsatEpsilonDEW_300: "20 < waterPsatEpsilonDEW 573.15"
  by (simp add: waterPsatEpsilonDEW_def toCelsius_def Let_def)

lemma waterPsatBornQDEW_300: "0 < waterPsatBornQDEW 573.15"
  by (simp add: waterPsatBornQDEW_def toCelsius_def Let_def)

text \<open>
  Claim C6 does not hold of the selector of WaterDielectricModel.cpp. Failing input: the
  default options with the saturation mode \<^verbatim>\<open>ForcePsat\<close>, at 300 degrees Celsius, for any
  pressure, water state and primary formulation. The returned state has a non-zero
  permittivity and \<open>bornZ = - 1 / \<epsilon>\<close>, but its \<open>\<epsilon>\<^sub>P\<close> is zero while its \<open>bornQ\<close> is the
  (positive) saturation fit, so \<open>bornQ\<close> differs from \<open>\<epsilon>\<^sub>P / \<epsilon>\<^sup>2\<close>.
\<close>

theorem electro_psat_override_breaks_born_q:
  "(let we = waterElectroPropsModel_dielectric jn psatWP 573.15 P wt
               (defaultWaterDielectricModelOptions \<lparr> psatMode := ForcePsat \<rparr>)
    in epsilon we \<noteq> 0
       \<and> bornZ we = - 1 / epsilon we
       \<and> epsilonP we = 0
       \<and> bornQ we = waterPsatBornQDEW 573.15
       \<and> epsilonP we / (epsilon we) ^ 2 = 0
       \<and> bornQ we \<noteq> epsilonP we / (epsilon we) ^ 2)"
proof -
  let ?o = "defaultWaterDielectricModelOptions \<lparr> psatMode := ForcePsat \<rparr>"
  define we0 where "we0 = evaluatePrimaryModel jn 573.15 P wt (primary ?o)"
  have sel: "waterElectroPropsModel_dielectric jn psatWP 573.15 P wt ?o
               = applyPsatOverrides 573.15 ?o we0"
    by (simp add: waterElectroPropsModel_dielectric_def we0_def)
  have q: "overrideQWithPsatFit ?o"
    by (simp add: defaultWaterDielectricModelOptions_def)
  have z: "bornZ (applyPsatOverrides 573.15 ?o we0) = - 1 / waterPsatEpsilonDEW 573.15"
    using waterPsatEpsilonDEW_300 by (simp add: applyPsatOverrides_def Let_def)
  show ?thesis
    unfolding Let_def sel
    using applyPsatOverrides_fields[OF q, of "573.15" we0] z
      waterPsatEpsilonDEW_300 waterPsatBornQDEW_300
    by simp
qed

end
